theory Spec2Isabelle
  imports Main "HOL-Library.AList"
begin

section \<open>Python values, exceptions and dictionaries\<close>

text \<open>
  The module \<^verbatim>\<open>app/services/media/emby.py\<close> talks to an Emby server over JSON and to a
  local database through an ORM session. Values that Python treats dynamically (JSON
  bodies, the policy of an account, form values, the duration of an invitation) are
  values of \<open>json\<close>. A JSON object is an association list in insertion order with
  distinct keys, as a Python \<^verbatim>\<open>dict\<close> is; JSON numbers with a fraction are not
  represented (the code has no branch for them). A \<open>char\<close> stands for one character of
  a Python string.

  The functions keep the names of the source. Each stateful function takes the state and
  returns its result with the new state; a result is \<open>Inl\<close> of the exception raised or
  \<open>Inr\<close> of the value returned. Of the log only warnings and errors are kept
  (\<^verbatim>\<open>logging.info\<close> has no counterpart). Queries and \<^verbatim>\<open>rollback\<close> do not raise in
  the model, \<^verbatim>\<open>commit\<close> may; the constructor \<^verbatim>\<open>EmbyClient()\<close>, which reads the
  server's address and key, is left out.
\<close>

datatype json =
    JNull
  | JBool bool
  | JInt int
  | JStr string
  | JList "json list"
  | JObj "(string \<times> json) list"

text \<open>Every raise of the source is a value of \<open>exn\<close>; a fallible result is \<open>exn + 'a\<close>.\<close>

datatype exn =
    HTTPError nat
  | ConnectionError
  | Timeout
  | JSONDecodeError
  | KeyError string
  | TypeError
  | AttributeError
  | ValueError
  | OverflowError
  | DatabaseError
  | NotifyError

text \<open>\<^verbatim>\<open>d[k]\<close>: only an object can be indexed by a string.\<close>

fun getitem :: "json \<Rightarrow> string \<Rightarrow> exn + json" where
  "getitem (JObj kvs) k = (case map_of kvs k of None \<Rightarrow> Inl (KeyError k) | Some v \<Rightarrow> Inr v)"
| "getitem _ k = Inl TypeError"

text \<open>\<^verbatim>\<open>d.get(k, default)\<close>: only an object has the method.\<close>

fun get_default :: "json \<Rightarrow> string \<Rightarrow> json \<Rightarrow> exn + json" where
  "get_default (JObj kvs) k d = (case map_of kvs k of None \<Rightarrow> Inr d | Some v \<Rightarrow> Inr v)"
| "get_default _ k d = Inl AttributeError"

text \<open>
  \<^verbatim>\<open>for item in v\<close>: a list yields its elements, an object its keys, a string its
  characters; nothing else is iterable.
\<close>

fun py_iter :: "json \<Rightarrow> exn + json list" where
  "py_iter (JList xs) = Inr xs"
| "py_iter (JObj kvs) = Inr (map (\<lambda>kv. JStr (fst kv)) kvs)"
| "py_iter (JStr s) = Inr (map (\<lambda>c. JStr [c]) s)"
| "py_iter _ = Inl TypeError"

text \<open>
  The identifiers and names of the remote API are strings. A reply that carries another
  JSON value where the code uses it as a dictionary key, in a URL or as a column value is
  treated as malformed: the model raises \<open>TypeError\<close> there.
\<close>

fun as_str :: "json \<Rightarrow> exn + string" where
  "as_str (JStr s) = Inr s"
| "as_str _ = Inl TypeError"

text \<open>Truthiness, as \<^verbatim>\<open>if v:\<close> tests it.\<close>

fun truthy :: "json \<Rightarrow> bool" where
  "truthy JNull = False"
| "truthy (JBool b) = b"
| "truthy (JInt n) = (n \<noteq> 0)"
| "truthy (JStr s) = (s \<noteq> [])"
| "truthy (JList xs) = (xs \<noteq> [])"
| "truthy (JObj kvs) = (kvs \<noteq> [])"

text \<open>\<^verbatim>\<open>d.update(patch)\<close>: an existing key keeps its place, a new key goes to the end.\<close>

definition dict_update :: "(string \<times> json) list \<Rightarrow> (string \<times> json) list \<Rightarrow> (string \<times> json) list" where
  "dict_update d patch = fold (\<lambda>kv acc. AList.update (fst kv) (snd kv) acc) patch d"

subsection \<open>The builtin \<^verbatim>\<open>int\<close>\<close>

text \<open>
  \<^verbatim>\<open>int(s)\<close> for a string of ASCII characters: surrounding whitespace is dropped, one
  sign is allowed, and the digits may be separated by single underscores. (Digits of
  other scripts and the interpreter's limit on the number of digits are not modelled.)
\<close>

definition is_space :: "char \<Rightarrow> bool" where
  "is_space c = (c \<in> set [CHR '' '', CHR 0x09, CHR 0x0A, CHR 0x0B, CHR 0x0C, CHR 0x0D])"

definition is_digit :: "char \<Rightarrow> bool" where
  "is_digit c = (c \<in> set ''0123456789'')"

definition digit_val :: "char \<Rightarrow> int" where
  "digit_val c = int (of_char c) - 48"

definition strip :: "string \<Rightarrow> string" where
  "strip s = rev (dropWhile is_space (rev (dropWhile is_space s)))"

text \<open>The digits after the first one: an underscore must be followed by a digit.\<close>

fun digits_rest :: "int \<Rightarrow> string \<Rightarrow> int option" where
  "digits_rest acc [] = Some acc"
| "digits_rest acc [c] = (if is_digit c then Some (acc * 10 + digit_val c) else None)"
| "digits_rest acc (c # d # cs) =
     (if is_digit c then digits_rest (acc * 10 + digit_val c) (d # cs)
      else if c = CHR ''_'' \<and> is_digit d then digits_rest acc (d # cs)
      else None)"

definition digits :: "string \<Rightarrow> int option" where
  "digits s = (case s of [] \<Rightarrow> None
     | c # cs \<Rightarrow> if is_digit c then digits_rest (digit_val c) cs else None)"

definition int_of_str :: "string \<Rightarrow> exn + int" where
  "int_of_str s =
     (let t = strip s;
          r = (case t of
                 [] \<Rightarrow> None
               | c # cs \<Rightarrow>
                   if c = CHR ''-'' then map_option uminus (digits cs)
                   else if c = CHR ''+'' then digits cs
                   else digits t)
      in case r of None \<Rightarrow> Inl ValueError | Some n \<Rightarrow> Inr n)"

fun py_int :: "json \<Rightarrow> exn + int" where
  "py_int (JInt n) = Inr n"
| "py_int (JBool b) = Inr (if b then 1 else 0)"
| "py_int (JStr s) = int_of_str s"
| "py_int _ = Inl TypeError"

text \<open>\<^verbatim>\<open>s.split(", ")\<close>, with the pieces collected left to right.\<close>

fun split_comma_space :: "string \<Rightarrow> string \<Rightarrow> string list" where
  "split_comma_space acc [] = [rev acc]"
| "split_comma_space acc [c] = [rev (c # acc)]"
| "split_comma_space acc (c # d # cs) =
     (if c = CHR '','' \<and> d = CHR '' '' then rev acc # split_comma_space [] cs
      else split_comma_space (c # acc) (d # cs))"

subsection \<open>The e-mail pattern\<close>

text \<open>
  \<^verbatim>\<open>EMAIL_RE = re.compile(r"[^@]+@[^@]+\.[^@]+")\<close>, used with \<^verbatim>\<open>fullmatch\<close>: exactly
  one \<open>@\<close>, something before it, and after it a dot that is neither the first nor the
  last character.
\<close>

definition email_fullmatch :: "string \<Rightarrow> bool" where
  "email_fullmatch e =
     (let a = takeWhile (\<lambda>c. c \<noteq> CHR ''@'') e;
          r = dropWhile (\<lambda>c. c \<noteq> CHR ''@'') e
      in a \<noteq> [] \<and> r \<noteq> [] \<and> CHR ''@'' \<notin> set (tl r) \<and> CHR ''.'' \<in> set (butlast (tl (tl r))))"

section \<open>The local database and the remote server\<close>

text \<open>
  The models \<^verbatim>\<open>User\<close>, \<^verbatim>\<open>Invitation\<close> and \<^verbatim>\<open>Library\<close> are declared in
  \<^verbatim>\<open>app.models\<close>; the records hold the columns this module reads and writes. A
  timestamp is a number of microseconds since 0001-01-01T00:00. The duration of an
  invitation is read dynamically by the code (\<^verbatim>\<open>if inv.duration\<close>, \<^verbatim>\<open>int(inv.duration)\<close>),
  so it is a \<open>json\<close> value: \<open>JNull\<close>, a number or a string.
\<close>

record user =
  u_username :: string
  u_email :: string
  u_password :: string
  u_token :: string
  u_code :: string
  u_expires :: "int option"

record library =
  lib_name :: string
  lib_external_id :: string
  lib_enabled :: bool

record invitation =
  inv_code :: string
  inv_used :: bool
  inv_unlimited :: bool
  inv_used_at :: "int option"
  inv_used_by :: "user option"
  inv_libraries :: "library list"
  inv_duration :: json

record tables =
  users_tbl :: "user list"
  invitations_tbl :: "invitation list"
  libraries_tbl :: "library list"

datatype request = Get string | Post string json | Delete string

datatype log_entry =
    PasswordSetFailed string exn
  | LibraryNotFound string
  | NoMatchingLibraries
  | JoinError exn

text \<open>
  The state the module acts on. \<open>committed\<close> is what the database holds; \<open>session\<close> is
  the view of the ORM session (\<^verbatim>\<open>db.session\<close>): queries read it, \<^verbatim>\<open>add\<close>,
  \<^verbatim>\<open>delete\<close> and attribute writes change it, \<^verbatim>\<open>commit\<close> stores it and
  \<^verbatim>\<open>rollback\<close> resets it. \<open>requests\<close> lists the HTTP requests sent so far, \<open>log\<close> the
  warnings and errors logged, \<open>notifications\<close> the notifications delivered.
\<close>

record state =
  committed :: tables
  session :: tables
  commits :: nat
  requests :: "request list"
  log :: "log_entry list"
  notifications :: "(string \<times> string \<times> string) list"

text \<open>
  What the module does not decide. \<open>respond\<close> is the server's answer to a request:
  an exception of \<^verbatim>\<open>requests\<close> (transport failure, or \<^verbatim>\<open>raise_for_status\<close> on a
  status that is not 2xx) or the body, \<open>None\<close> when the body is not JSON.
  \<open>commit_fails n\<close> tells whether the commit after \<open>n\<close> earlier ones raises.
  \<open>invite_valid\<close> is \<^verbatim>\<open>app.services.invites.is_invite_valid\<close> and \<open>notify_raises\<close> the
  outcome of \<^verbatim>\<open>app.services.notifications.notify\<close>, both defined outside this module.
  \<open>utcnow\<close> and \<open>now\<close> are the clock readings. \<open>set_order\<close> chooses the order in which
  Python enumerates a set.
\<close>

record env =
  respond :: "request \<Rightarrow> exn + json option"
  commit_fails :: "nat \<Rightarrow> bool"
  invite_valid :: "tables \<Rightarrow> string \<Rightarrow> bool \<times> string"
  notify_raises :: "string \<Rightarrow> string \<Rightarrow> string \<Rightarrow> exn option"
  utcnow :: int
  now :: int
  set_order :: "string list \<Rightarrow> string list"

subsection \<open>Sequencing with exceptions\<close>

definition sum_bind :: "exn + 'a \<Rightarrow> ('a \<Rightarrow> exn + 'b) \<Rightarrow> exn + 'b" where
  "sum_bind r f = (case r of Inl e \<Rightarrow> Inl e | Inr x \<Rightarrow> f x)"

definition exn_bind ::
  "(state \<Rightarrow> (exn + 'a) \<times> state) \<Rightarrow> ('a \<Rightarrow> state \<Rightarrow> (exn + 'b) \<times> state) \<Rightarrow> state \<Rightarrow> (exn + 'b) \<times> state" where
  "exn_bind m f s = (case m s of (Inl e, s') \<Rightarrow> (Inl e, s') | (Inr x, s') \<Rightarrow> f x s')"

definition lift :: "exn + 'a \<Rightarrow> state \<Rightarrow> (exn + 'a) \<times> state" where
  "lift r s = (r, s)"

definition write_log :: "log_entry list \<Rightarrow> state \<Rightarrow> (exn + unit) \<times> state" where
  "write_log es s = (Inr (), s\<lparr>log := log s @ es\<rparr>)"

subsection \<open>The session\<close>

definition session_add :: "user \<Rightarrow> state \<Rightarrow> (exn + unit) \<times> state" where
  "session_add u s =
     (Inr (), s\<lparr>session := (session s)\<lparr>users_tbl := users_tbl (session s) @ [u]\<rparr>\<rparr>)"

definition commit :: "env \<Rightarrow> state \<Rightarrow> (exn + unit) \<times> state" where
  "commit env s =
     (if commit_fails env (commits s) then (Inl DatabaseError, s\<lparr>commits := Suc (commits s)\<rparr>)
      else (Inr (), s\<lparr>committed := session s, commits := Suc (commits s)\<rparr>))"

definition rollback :: "state \<Rightarrow> state" where
  "rollback s = s\<lparr>session := committed s\<rparr>"

subsection \<open>HTTP\<close>

definition http :: "env \<Rightarrow> request \<Rightarrow> state \<Rightarrow> (exn + json option) \<times> state" where
  "http env rq s = (respond env rq, s\<lparr>requests := requests s @ [rq]\<rparr>)"

definition get :: "env \<Rightarrow> string \<Rightarrow> state \<Rightarrow> (exn + json option) \<times> state" where
  "get env path = http env (Get path)"

definition post :: "env \<Rightarrow> string \<Rightarrow> json \<Rightarrow> state \<Rightarrow> (exn + json option) \<times> state" where
  "post env path payload = http env (Post path payload)"

definition delete :: "env \<Rightarrow> string \<Rightarrow> state \<Rightarrow> (exn + json option) \<times> state" where
  "delete env path = http env (Delete path)"

text \<open>\<^verbatim>\<open>r.json()\<close>\<close>

definition json_of :: "json option \<Rightarrow> exn + json" where
  "json_of body = (case body of None \<Rightarrow> Inl JSONDecodeError | Some j \<Rightarrow> Inr j)"

section \<open>\<^verbatim>\<open>EmbyClient\<close>\<close>

text \<open>
  \<^verbatim>\<open>libraries\<close>: the dictionary comprehension over the items of
  \<^verbatim>\<open>/Library/MediaFolders\<close>; a later item with the same key overwrites the value.
\<close>

fun id_to_name_of :: "json list \<Rightarrow> (string \<times> string) list \<Rightarrow> exn + (string \<times> string) list" where
  "id_to_name_of [] acc = Inr acc"
| "id_to_name_of (item # items) acc =
     sum_bind (sum_bind (getitem item ''Id'') as_str) (\<lambda>i.
     sum_bind (sum_bind (getitem item ''Name'') as_str) (\<lambda>n.
     id_to_name_of items (AList.update i n acc)))"

fun name_to_id_of :: "json list \<Rightarrow> (string \<times> string) list \<Rightarrow> exn + (string \<times> string) list" where
  "name_to_id_of [] acc = Inr acc"
| "name_to_id_of (item # items) acc =
     sum_bind (sum_bind (getitem item ''Name'') as_str) (\<lambda>n.
     sum_bind (sum_bind (getitem item ''Id'') as_str) (\<lambda>i.
     name_to_id_of items (AList.update n i acc)))"

definition libraries :: "env \<Rightarrow> state \<Rightarrow> (exn + (string \<times> string) list) \<times> state" where
  "libraries env =
     exn_bind (get env ''/Library/MediaFolders'') (\<lambda>r.
     lift (sum_bind (json_of r) (\<lambda>j.
           sum_bind (getitem j ''Items'') (\<lambda>v.
           sum_bind (py_iter v) (\<lambda>items. id_to_name_of items [])))))"

text \<open>
  \<^verbatim>\<open>create_user\<close>: the account is created without a password, then the password is
  set inside \<^verbatim>\<open>try ... except Exception\<close>, which logs the failure and goes on.
\<close>

definition create_user :: "env \<Rightarrow> string \<Rightarrow> string \<Rightarrow> state \<Rightarrow> (exn + string) \<times> state" where
  "create_user env username password =
     exn_bind (post env ''/Users/New'' (JObj [(''Name'', JStr username)])) (\<lambda>r.
     exn_bind (lift (sum_bind (json_of r) (\<lambda>user. sum_bind (getitem user ''Id'') as_str))) (\<lambda>user_id s.
       case post env (''/Users/'' @ user_id @ ''/Password'')
              (JObj [(''NewPw'', JStr password), (''CurrentPw'', JStr []),
                     (''ResetPassword'', JBool False)]) s of
         (Inl e, s') \<Rightarrow> (Inr user_id, s'\<lparr>log := log s' @ [PasswordSetFailed username e]\<rparr>)
       | (Inr _, s') \<Rightarrow> (Inr user_id, s')))"

definition set_policy :: "env \<Rightarrow> string \<Rightarrow> json \<Rightarrow> state \<Rightarrow> (exn + unit) \<times> state" where
  "set_policy env user_id policy =
     exn_bind (post env (''/Users/'' @ user_id @ ''/Policy'') policy) (\<lambda>_. lift (Inr ()))"

definition delete_user :: "env \<Rightarrow> string \<Rightarrow> state \<Rightarrow> (exn + unit) \<times> state" where
  "delete_user env user_id =
     exn_bind (delete env (''/Users/'' @ user_id)) (\<lambda>_. lift (Inr ()))"

definition get_user :: "env \<Rightarrow> string \<Rightarrow> state \<Rightarrow> (exn + json) \<times> state" where
  "get_user env emby_id = exn_bind (get env (''/Users/'' @ emby_id)) (\<lambda>r. lift (json_of r))"

subsection \<open>\<^verbatim>\<open>update_user\<close>\<close>

text \<open>\<^verbatim>\<open>key in v\<close> for a string key.\<close>

fun is_substring :: "string \<Rightarrow> string \<Rightarrow> bool" where
  "is_substring k [] = (k = [])"
| "is_substring k (c # cs) = (take (length k) (c # cs) = k \<or> is_substring k cs)"

fun contains :: "json \<Rightarrow> string \<Rightarrow> exn + bool" where
  "contains (JObj kvs) k = Inr (map_of kvs k \<noteq> None)"
| "contains (JList xs) k = Inr (JStr k \<in> set xs)"
| "contains (JStr s) k = Inr (is_substring k s)"
| "contains _ k = Inl TypeError"

text \<open>
  The \<^verbatim>\<open>isinstance\<close> chain of \<^verbatim>\<open>update_user\<close>: the new \<^verbatim>\<open>val\<close> for a field whose
  current value is \<open>target\<close>. JSON booleans are tested before integers, as in the source.
\<close>

fun coerce :: "json \<Rightarrow> json \<Rightarrow> exn + json" where
  "coerce (JBool t) val = Inr (JBool (val = JStr ''True''))"
| "coerce (JInt t) val = sum_bind (py_int val) (\<lambda>n. Inr (JInt n))"
| "coerce (JList t) val =
     (if val = JStr [] then Inr (JList [])
      else case val of
             JStr s \<Rightarrow> Inr (JList (map JStr (split_comma_space [] s)))
           | _ \<Rightarrow> Inl AttributeError)"
| "coerce target val = Inr val"

text \<open>\<^verbatim>\<open>current[section][key] = val\<close>, for objects.\<close>

fun setitem2 :: "json \<Rightarrow> string \<Rightarrow> string \<Rightarrow> json \<Rightarrow> json" where
  "setitem2 (JObj kvs) section key val =
     JObj (AList.update section
            (case map_of kvs section of
               Some (JObj sec) \<Rightarrow> JObj (AList.update key val sec)
             | Some other \<Rightarrow> other
             | None \<Rightarrow> JNull) kvs)"
| "setitem2 j section key val = j"

text \<open>
  The body of the inner loop for one \<open>section\<close>. It takes and returns the pair of
  \<^verbatim>\<open>current\<close> and \<^verbatim>\<open>val\<close>: the source assigns the coerced value to \<^verbatim>\<open>val\<close>
  itself, so the second section sees what the first one left.
\<close>

definition update_section :: "string \<Rightarrow> string \<Rightarrow> json \<times> json \<Rightarrow> exn + json \<times> json" where
  "update_section section key cv =
     (case cv of (current, val) \<Rightarrow>
        sum_bind (getitem current section) (\<lambda>sec.
        sum_bind (contains sec key) (\<lambda>present.
        if present then
          sum_bind (getitem sec key) (\<lambda>target.
          sum_bind (coerce target val) (\<lambda>val'.
          Inr (setitem2 current section key val', val')))
        else Inr (current, val))))"

fun apply_form :: "(string \<times> json) list \<Rightarrow> json \<Rightarrow> exn + json" where
  "apply_form [] current = Inr current"
| "apply_form (kv # form) current =
     sum_bind (update_section ''Policy'' (fst kv) (current, snd kv)) (\<lambda>cv.
     sum_bind (update_section ''Configuration'' (fst kv) cv) (\<lambda>cv'.
     apply_form form (fst cv')))"

definition update_user :: "env \<Rightarrow> string \<Rightarrow> (string \<times> json) list \<Rightarrow> state \<Rightarrow> (exn + json) \<times> state" where
  "update_user env emby_id form =
     exn_bind (get_user env emby_id) (\<lambda>current.
     exn_bind (lift (apply_form form current)) (\<lambda>current'.
     exn_bind (post env (''/Users/'' @ emby_id) current') (\<lambda>r. lift (json_of r))))"

subsection \<open>\<^verbatim>\<open>list_users\<close>\<close>

text \<open>\<^verbatim>\<open>{u["Id"]: u for u in ...}\<close>\<close>

fun emby_users_of :: "json list \<Rightarrow> (string \<times> json) list \<Rightarrow> exn + (string \<times> json) list" where
  "emby_users_of [] acc = Inr acc"
| "emby_users_of (u # us) acc =
     sum_bind (sum_bind (getitem u ''Id'') as_str) (\<lambda>i. emby_users_of us (AList.update i u acc))"

text \<open>
  The first loop: a remote account with no local row of the same token gets a row with
  placeholder values. The query reads the session, which holds the rows added so far.
\<close>

fun add_missing :: "json list \<Rightarrow> state \<Rightarrow> (exn + unit) \<times> state" where
  "add_missing [] s = (Inr (), s)"
| "add_missing (emby # rest) s =
     (case sum_bind (getitem emby ''Id'') as_str of
        Inl e \<Rightarrow> (Inl e, s)
      | Inr tok \<Rightarrow>
          (case find (\<lambda>u. u_token u = tok) (users_tbl (session s)) of
             Some existing \<Rightarrow> add_missing rest s
           | None \<Rightarrow>
               (case sum_bind (getitem emby ''Name'') as_str of
                  Inl e \<Rightarrow> (Inl e, s)
                | Inr name \<Rightarrow>
                    add_missing rest
                      (snd (session_add
                         \<lparr>u_username = name, u_email = ''empty'', u_password = ''empty'',
                          u_token = tok, u_code = ''empty'', u_expires = None\<rparr> s)))))"

text \<open>The second loop: every row whose token is not a key of \<^verbatim>\<open>emby_users\<close> is deleted.\<close>

definition delete_absent :: "(string \<times> json) list \<Rightarrow> state \<Rightarrow> (exn + unit) \<times> state" where
  "delete_absent emby_users s =
     (Inr (), s\<lparr>session := (session s)\<lparr>users_tbl :=
        filter (\<lambda>dbu. map_of emby_users (u_token dbu) \<noteq> None) (users_tbl (session s))\<rparr>\<rparr>)"

definition list_users :: "env \<Rightarrow> state \<Rightarrow> (exn + user list) \<times> state" where
  "list_users env =
     exn_bind (get env ''/Users'') (\<lambda>r.
     exn_bind (lift (sum_bind (json_of r) (\<lambda>j. sum_bind (py_iter j) (\<lambda>us. emby_users_of us [])))) (\<lambda>emby_users.
     exn_bind (add_missing (map snd emby_users)) (\<lambda>_.
     exn_bind (commit env) (\<lambda>_.
     exn_bind (delete_absent emby_users) (\<lambda>_.
     exn_bind (commit env) (\<lambda>_ s.
     (Inr (users_tbl (session s)), s)))))))"

section \<open>Helper functions\<close>

text \<open>
  \<^verbatim>\<open>mark_invite_used\<close>: the attribute writes reach the row the invitation was read
  from, the first one with its code; then the session is committed.
\<close>

fun update_first :: "('a \<Rightarrow> bool) \<Rightarrow> ('a \<Rightarrow> 'a) \<Rightarrow> 'a list \<Rightarrow> 'a list" where
  "update_first P f [] = []"
| "update_first P f (x # xs) = (if P x then f x # xs else x # update_first P f xs)"

definition mark_invite_used :: "env \<Rightarrow> invitation \<Rightarrow> user \<Rightarrow> state \<Rightarrow> (exn + unit) \<times> state" where
  "mark_invite_used env invite user s =
     commit env
       (s\<lparr>session := (session s)\<lparr>invitations_tbl :=
            update_first (\<lambda>i. inv_code i = inv_code invite)
              (\<lambda>i. i\<lparr>inv_used := (if \<not> inv_unlimited invite then True else inv_used invite),
                      inv_used_at := Some (now env),
                      inv_used_by := Some user\<rparr>)
              (invitations_tbl (session s))\<rparr>\<rparr>)"

text \<open>\<^verbatim>\<open>folder_name_to_id\<close>: \<open>cache\<close> maps library ids to library names.\<close>

definition folder_name_to_id :: "string \<Rightarrow> (string \<times> string) list \<Rightarrow> string option" where
  "folder_name_to_id name cache =
     (if map_of cache name \<noteq> None then Some name
      else map_option fst (find (\<lambda>kv. snd kv = name) cache))"

subsection \<open>\<^verbatim>\<open>set_specific_folders\<close>\<close>

text \<open>The loop over \<^verbatim>\<open>names\<close>: the ids appended to \<^verbatim>\<open>folder_ids\<close>, in order.\<close>

fun match_names :: "(string \<times> string) list \<Rightarrow> (string \<times> string) list \<Rightarrow> string list \<Rightarrow> string list" where
  "match_names id_to_name name_to_id [] = []"
| "match_names id_to_name name_to_id (name # names) =
     (if map_of id_to_name name \<noteq> None then name # match_names id_to_name name_to_id names
      else case map_of name_to_id name of
             Some i \<Rightarrow> i # match_names id_to_name name_to_id names
           | None \<Rightarrow> match_names id_to_name name_to_id names)"

text \<open>The names the loop warns about.\<close>

definition unmatched_names :: "(string \<times> string) list \<Rightarrow> (string \<times> string) list \<Rightarrow> string list \<Rightarrow> string list" where
  "unmatched_names id_to_name name_to_id names =
     filter (\<lambda>name. map_of id_to_name name = None \<and> map_of name_to_id name = None) names"

text \<open>
  \<^verbatim>\<open>list(set(xs))\<close>: the distinct elements in an order Python does not fix. The order
  is \<open>ord\<close>'s whenever \<open>ord\<close> rearranges its argument, so every order can occur.
\<close>

definition list_of_set :: "(string list \<Rightarrow> string list) \<Rightarrow> string list \<Rightarrow> string list" where
  "list_of_set ord xs =
     (let ys = remdups xs; zs = ord ys
      in if distinct zs \<and> set zs = set ys then zs else ys)"

text \<open>\<^verbatim>\<open>folder_ids = list(set([fid for fid in folder_ids if fid]))\<close> after the loop.\<close>

definition folder_ids_of :: "env \<Rightarrow> (string \<times> string) list \<Rightarrow> (string \<times> string) list \<Rightarrow> string list \<Rightarrow> string list" where
  "folder_ids_of env id_to_name name_to_id names =
     list_of_set (set_order env) (filter (\<lambda>fid. fid \<noteq> []) (match_names id_to_name name_to_id names))"

definition playback_permissions :: "(string \<times> json) list" where
  "playback_permissions =
     [(''EnableMediaPlayback'', JBool True),
      (''EnableAudioPlaybackTranscoding'', JBool True),
      (''EnableVideoPlaybackTranscoding'', JBool True),
      (''EnablePlaybackRemuxing'', JBool True),
      (''EnableContentDownloading'', JBool True),
      (''EnableRemoteAccess'', JBool True)]"

definition policy_patch :: "string list \<Rightarrow> (string \<times> json) list" where
  "policy_patch folder_ids =
     [(''EnableAllFolders'', JBool (folder_ids = [])),
      (''EnabledFolders'', JList (map JStr folder_ids))]"

text \<open>\<^verbatim>\<open>current.update(patch)\<close>: only an object has the method.\<close>

fun py_update :: "json \<Rightarrow> (string \<times> json) list \<Rightarrow> exn + json" where
  "py_update (JObj d) patch = Inr (JObj (dict_update d patch))"
| "py_update j patch = Inl AttributeError"

definition set_specific_folders :: "env \<Rightarrow> string \<Rightarrow> string list \<Rightarrow> state \<Rightarrow> (exn + unit) \<times> state" where
  "set_specific_folders env user_id names =
     exn_bind (get env ''/Library/MediaFolders'') (\<lambda>response.
     exn_bind (lift (sum_bind (json_of response) (\<lambda>j.
                     sum_bind (get_default j ''Items'' (JList [])) py_iter))) (\<lambda>media_folders.
     exn_bind (lift (id_to_name_of media_folders [])) (\<lambda>id_to_name.
     exn_bind (lift (name_to_id_of media_folders [])) (\<lambda>name_to_id.
     exn_bind (write_log (map LibraryNotFound (unmatched_names id_to_name name_to_id names))) (\<lambda>_.
     let folder_ids = folder_ids_of env id_to_name name_to_id names in
     exn_bind (write_log (if folder_ids = [] then [NoMatchingLibraries] else [])) (\<lambda>_.
     exn_bind (get_user env user_id) (\<lambda>account.
     exn_bind (lift (sum_bind (getitem account ''Policy'') (\<lambda>current.
                     sum_bind (py_update current (policy_patch folder_ids)) (\<lambda>current.
                     py_update current playback_permissions)))) (\<lambda>current.
     set_policy env user_id current))))))))"

section \<open>\<^verbatim>\<open>join\<close>\<close>

text \<open>
  \<^verbatim>\<open>datetime.timedelta(days=days)\<close> and the addition to a \<^verbatim>\<open>datetime\<close>: both raise
  \<^verbatim>\<open>OverflowError\<close> outside their ranges (a delta of at most 999999999 days, a date
  from year 1 to year 9999).
\<close>

definition microseconds_per_day :: int where
  "microseconds_per_day = 86400000000"

definition timedelta_days :: "int \<Rightarrow> exn + int" where
  "timedelta_days days =
     (if \<bar>days\<bar> > 999999999 then Inl OverflowError else Inr (days * microseconds_per_day))"

definition datetime_add :: "int \<Rightarrow> int \<Rightarrow> exn + int" where
  "datetime_add t delta =
     (let r = t + delta
      in if 0 \<le> r \<and> r < 3652059 * microseconds_per_day then Inr r else Inl OverflowError)"

text \<open>The block \<^verbatim>\<open># Calculate expiration date if needed\<close>.\<close>

definition expires_of :: "env \<Rightarrow> invitation \<Rightarrow> exn + int option" where
  "expires_of env invite =
     (if truthy (inv_duration invite) then
        sum_bind (py_int (inv_duration invite)) (\<lambda>days.
        sum_bind (timedelta_days days) (\<lambda>delta.
        sum_bind (datetime_add (utcnow env) delta) (\<lambda>expires. Inr (Some expires))))
      else Inr None)"

definition notify :: "env \<Rightarrow> string \<Rightarrow> string \<Rightarrow> string \<Rightarrow> state \<Rightarrow> (exn + unit) \<times> state" where
  "notify env title body tags s =
     (case notify_raises env title body tags of
        Some e \<Rightarrow> (Inl e, s)
      | None \<Rightarrow> (Inr (), s\<lparr>notifications := notifications s @ [(title, body, tags)]\<rparr>))"

text \<open>The two literals with a character outside ASCII, as UTF-8: an en dash and U+1F389.\<close>

definition password_length_message :: string where
  "password_length_message =
     ''Password must be 8'' @ [CHR 0xE2, CHR 0x80, CHR 0x93] @ ''20 characters.''"

definition joined_message :: "string \<Rightarrow> string" where
  "joined_message username =
     ''User '' @ username @ '' has joined your Emby server! '' @ [CHR 0xF0, CHR 0x9F, CHR 0x8E, CHR 0x89]"

definition unexpected_error_message :: string where
  "unexpected_error_message = ''An unexpected error occurred during user creation.''"

definition new_user_of :: "string \<Rightarrow> string \<Rightarrow> string \<Rightarrow> string \<Rightarrow> int option \<Rightarrow> user" where
  "new_user_of username email user_id code expires =
     \<lparr>u_username = username, u_email = email, u_password = ''emby-user'',
      u_token = user_id, u_code = code, u_expires = expires\<rparr>"

text \<open>
  The body of the \<^verbatim>\<open>try\<close>, in two parts: \<^verbatim>\<open>client.create_user\<close>, and
  everything after it (\<open>join_after_create\<close>, from \<^verbatim>\<open># Step 2\<close> to the notification).
  \<^verbatim>\<open>Invitation.query.filter_by(code=code).first()\<close> is \<open>None\<close> when there is no
  such row, and reading \<^verbatim>\<open>inv.libraries\<close> then raises. (The source's \<^verbatim>\<open>inv\<close>
  is \<open>invite\<close> here.)
\<close>

definition join_after_create ::
  "env \<Rightarrow> string \<Rightarrow> string \<Rightarrow> string \<Rightarrow> string \<Rightarrow> state \<Rightarrow> (exn + unit) \<times> state" where
  "join_after_create env username email code user_id =
     exn_bind (\<lambda>s. lift (case find (\<lambda>i. inv_code i = code) (invitations_tbl (session s)) of
                            None \<Rightarrow> Inl AttributeError
                          | Some invite \<Rightarrow> Inr invite) s) (\<lambda>invite.
     exn_bind (\<lambda>s. lift (Inr (if inv_libraries invite \<noteq> []
                               then map lib_external_id (inv_libraries invite)
                               else map lib_external_id
                                      (filter lib_enabled (libraries_tbl (session s))))) s) (\<lambda>sections.
     exn_bind (set_specific_folders env user_id sections) (\<lambda>_.
     exn_bind (lift (expires_of env invite)) (\<lambda>expires.
     exn_bind (session_add (new_user_of username email user_id code expires)) (\<lambda>_.
     exn_bind (commit env) (\<lambda>_.
     exn_bind (mark_invite_used env invite (new_user_of username email user_id code expires)) (\<lambda>_.
     notify env ''New User'' (joined_message username) ''tada'')))))))"

definition join_try :: "env \<Rightarrow> string \<Rightarrow> string \<Rightarrow> string \<Rightarrow> string \<Rightarrow> state \<Rightarrow> (exn + unit) \<times> state" where
  "join_try env username password email code =
     exn_bind (create_user env username password) (join_after_create env username email code)"

definition join ::
  "env \<Rightarrow> string \<Rightarrow> string \<Rightarrow> string \<Rightarrow> string \<Rightarrow> string \<Rightarrow> state \<Rightarrow> (bool \<times> string) \<times> state" where
  "join env username password confirm email code s =
     (if \<not> email_fullmatch email then ((False, ''Invalid e-mail address.''), s)
      else if \<not> (8 \<le> length password \<and> length password \<le> 20)
        then ((False, password_length_message), s)
      else if password \<noteq> confirm then ((False, ''Passwords do not match.''), s)
      else if \<not> fst (invite_valid env (session s) code)
        then ((False, snd (invite_valid env (session s) code)), s)
      else if find (\<lambda>u. u_username u = username \<or> u_email u = email) (users_tbl (session s)) \<noteq> None
        then ((False, ''User or e-mail already exists.''), s)
      else
        (case join_try env username password email code s of
           (Inr _, s') \<Rightarrow> ((True, []), s')
         | (Inl e, s') \<Rightarrow>
             ((False, unexpected_error_message), rollback (s'\<lparr>log := log s' @ [JoinError e]\<rparr>))))"

section \<open>A concrete server and database\<close>

text \<open>
  A small world on which the functions can be run: a server with two libraries that
  names every new account \<open>u1\<close>, and a database with one invitation. The replies to the
  two calls of \<^verbatim>\<open>create_user\<close>, the commits that fail and the duration of the
  invitation are parameters.
\<close>

definition example_folders :: json where
  "example_folders =
     JObj [(''Items'', JList [JObj [(''Id'', JStr ''f1''), (''Name'', JStr ''Movies'')],
                              JObj [(''Id'', JStr ''f2''), (''Name'', JStr ''Shows'')]])]"

definition example_account :: json where
  "example_account =
     JObj [(''Name'', JStr ''carol''),
           (''Policy'', JObj [(''EnableMediaPlayback'', JBool False),
                              (''IsAdministrator'', JBool False),
                              (''EnabledFolders'', JList [JStr ''f9''])]),
           (''Configuration'', JObj [(''OrderedViews'', JList [JStr ''a'', JStr ''b''])])]"

text \<open>An account with a field of the same name in both blocks, for \<^verbatim>\<open>update_user\<close>.\<close>

definition example_account_shared :: json where
  "example_account_shared =
     JObj [(''Name'', JStr ''dave''),
           (''Policy'', JObj [(''IsAdmin'', JBool False), (''Tags'', JList [JStr ''a'', JStr ''b''])]),
           (''Configuration'', JObj [(''IsAdmin'', JBool False), (''Tags'', JList [JStr ''a'', JStr ''b''])])]"

definition example_accounts :: json where
  "example_accounts =
     JList [JObj [(''Id'', JStr ''A''), (''Name'', JStr ''alice'')],
            JObj [(''Id'', JStr ''B''), (''Name'', JStr ''bob'')]]"

definition example_server :: "exn + json option \<Rightarrow> exn + json option \<Rightarrow> request \<Rightarrow> exn + json option" where
  "example_server new_reply password_reply rq =
     (case rq of
        Post p payload \<Rightarrow>
          if p = ''/Users/New'' then new_reply
          else if p = ''/Users/u1/Password'' then password_reply
          else if p = ''/Users/u1/Policy'' then Inr None
          else if p = ''/Users/u1'' \<or> p = ''/Users/u2'' then Inr (Some payload)
          else Inl (HTTPError 404)
      | Get p \<Rightarrow>
          if p = ''/Library/MediaFolders'' then Inr (Some example_folders)
          else if p = ''/Users/u1'' then Inr (Some example_account)
          else if p = ''/Users/u2'' then Inr (Some example_account_shared)
          else if p = ''/Users'' then Inr (Some example_accounts)
          else Inl (HTTPError 404)
      | Delete p \<Rightarrow> Inl (HTTPError 404))"

definition created_u1 :: "exn + json option" where
  "created_u1 = Inr (Some (JObj [(''Name'', JStr ''carol''), (''Id'', JStr ''u1'')]))"

definition example_env :: "exn + json option \<Rightarrow> exn + json option \<Rightarrow> (nat \<Rightarrow> bool) \<Rightarrow> env" where
  "example_env new_reply password_reply failing =
     \<lparr>respond = example_server new_reply password_reply,
      commit_fails = failing,
      invite_valid = (\<lambda>t c. if c = ''CODE'' then (True, []) else (False, ''Invalid code'')),
      notify_raises = (\<lambda>title body tags. None),
      utcnow = 63000000000000000,
      now = 63000003600000000,
      set_order = rev\<rparr>"

definition example_invitation :: "library list \<Rightarrow> json \<Rightarrow> invitation" where
  "example_invitation libs duration =
     \<lparr>inv_code = ''CODE'', inv_used = False, inv_unlimited = False, inv_used_at = None,
      inv_used_by = None, inv_libraries = libs, inv_duration = duration\<rparr>"

definition example_tables :: "library list \<Rightarrow> json \<Rightarrow> tables" where
  "example_tables libs duration =
     \<lparr>users_tbl = [],
      invitations_tbl = [example_invitation libs duration],
      libraries_tbl = [\<lparr>lib_name = ''Movies'', lib_external_id = ''f1'', lib_enabled = True\<rparr>,
                       \<lparr>lib_name = ''Shows'', lib_external_id = ''f2'', lib_enabled = False\<rparr>]\<rparr>"

definition example_state :: "library list \<Rightarrow> json \<Rightarrow> state" where
  "example_state libs duration =
     \<lparr>committed = example_tables libs duration, session = example_tables libs duration,
      commits = 0, requests = [], log = [], notifications = []\<rparr>"

definition never :: "nat \<Rightarrow> bool" where
  "never n = False"

definition second_only :: "nat \<Rightarrow> bool" where
  "second_only n = (n = 1)"

text \<open>A local directory with the accounts \<open>A\<close> and \<open>C\<close>, for \<^verbatim>\<open>list_users\<close>.\<close>

definition local_A :: user where
  "local_A = new_user_of ''alice'' ''alice@example.org'' ''A'' ''CODE'' None"

definition local_C :: user where
  "local_C = new_user_of ''carl'' ''carl@example.org'' ''C'' ''CODE'' None"

definition sync_state :: state where
  "sync_state =
     (let t = \<lparr>users_tbl = [local_A, local_C], invitations_tbl = [], libraries_tbl = []\<rparr>
      in \<lparr>committed = t, session = t, commits = 0, requests = [], log = [], notifications = []\<rparr>)"

text \<open>A server whose only library has the empty string as its identifier.\<close>

definition empty_id_folders :: json where
  "empty_id_folders = JObj [(''Items'', JList [JObj [(''Id'', JStr []), (''Name'', JStr ''Movies'')]])]"

definition empty_id_env :: env where
  "empty_id_env =
     (example_env created_u1 (Inr None) never)
       \<lparr>respond := (\<lambda>rq. if rq = Get ''/Library/MediaFolders'' then Inr (Some empty_id_folders)
                         else example_server created_u1 (Inr None) rq)\<rparr>"

section \<open>Notions used in the statements\<close>

definition is_delete :: "request \<Rightarrow> bool" where
  "is_delete rq = (case rq of Delete p \<Rightarrow> True | _ \<Rightarrow> False)"

text \<open>
  What a step that only talks to the server and writes to the log leaves alone: the
  database, the session, the notifications, and the \<^verbatim>\<open>DELETE\<close> requests sent.
\<close>

definition remote_only :: "state \<Rightarrow> state \<Rightarrow> bool" where
  "remote_only s s' \<longleftrightarrow>
     committed s' = committed s \<and> session s' = session s \<and> commits s' = commits s \<and>
     notifications s' = notifications s \<and>
     filter is_delete (requests s') = filter is_delete (requests s)"

text \<open>
  A row as the first loop of \<^verbatim>\<open>list_users\<close> creates it: the identifier and the name
  of a remote account, and \<open>empty\<close> in the other columns.
\<close>

definition placeholder :: "json list \<Rightarrow> user \<Rightarrow> bool" where
  "placeholder accounts u \<longleftrightarrow>
     u_email u = ''empty'' \<and> u_password u = ''empty'' \<and> u_code u = ''empty'' \<and>
     u_expires u = None \<and>
     (\<exists>a\<in>set accounts. getitem a ''Id'' = Inr (JStr (u_token u)) \<and>
                        getitem a ''Name'' = Inr (JStr (u_username u)))"

section \<open>Sequencing: elimination rules\<close>

lemma exn_bind_cases:
  assumes "exn_bind m f s = (r, t)"
  obtains (raised) e where "m s = (Inl e, t)" "r = Inl e"
        | (went_on) x s' where "m s = (Inr x, s')" "f x s' = (r, t)"
  using assms by (auto simp: exn_bind_def split: prod.splits sum.splits)

lemma exn_bind_Inr:
  "exn_bind m f s = (Inr y, t) \<longleftrightarrow> (\<exists>x s'. m s = (Inr x, s') \<and> f x s' = (Inr y, t))"
  by (auto simp: exn_bind_def split: prod.splits sum.splits)

section \<open>Steps that leave the database alone\<close>

lemma remote_only_trans: "remote_only a b \<Longrightarrow> remote_only b c \<Longrightarrow> remote_only a c"
  by (simp add: remote_only_def)

lemma exn_bind_remote_only:
  assumes "exn_bind m f s = (r, t)"
    and "\<And>r' s'. m s = (r', s') \<Longrightarrow> remote_only s s'"
    and "\<And>x s'. m s = (Inr x, s') \<Longrightarrow> f x s' = (r, t) \<Longrightarrow> remote_only s' t"
  shows "remote_only s t"
  using assms(1)
proof (cases rule: exn_bind_cases)
  case (raised e)
  then show ?thesis using assms(2) by blast
next
  case (went_on x s')
  then show ?thesis using assms(2,3) remote_only_trans by blast
qed

lemma lift_remote_only: "lift v s = (r, t) \<Longrightarrow> remote_only s t"
  by (auto simp: lift_def remote_only_def)

lemma write_log_remote_only: "write_log es s = (r, t) \<Longrightarrow> remote_only s t"
  by (auto simp: write_log_def remote_only_def)

lemma get_remote_only: "get env p s = (r, t) \<Longrightarrow> remote_only s t"
  by (auto simp: get_def http_def remote_only_def is_delete_def)

lemma post_remote_only: "post env p j s = (r, t) \<Longrightarrow> remote_only s t"
  by (auto simp: post_def http_def remote_only_def is_delete_def)

lemma get_user_remote_only: "get_user env i s = (r, t) \<Longrightarrow> remote_only s t"
  unfolding get_user_def
  by (erule exn_bind_remote_only) (auto dest: get_remote_only lift_remote_only)

lemma set_policy_remote_only: "set_policy env i p s = (r, t) \<Longrightarrow> remote_only s t"
  unfolding set_policy_def
  by (erule exn_bind_remote_only) (auto dest: post_remote_only lift_remote_only)

lemma create_user_remote_only:
  "create_user env username password s = (r, t) \<Longrightarrow> remote_only s t"
  by (auto simp: create_user_def exn_bind_def post_def http_def lift_def remote_only_def is_delete_def
           split: sum.splits prod.splits)

lemma set_specific_folders_remote_only:
  "set_specific_folders env user_id names s = (r, t) \<Longrightarrow> remote_only s t"
  unfolding set_specific_folders_def Let_def
  by (elim exn_bind_remote_only get_remote_only lift_remote_only write_log_remote_only
        get_user_remote_only set_policy_remote_only)

section \<open>The steps of \<^verbatim>\<open>join\<close> after the account exists\<close>

text \<open>
  When the steps after \<^verbatim>\<open>create_user\<close> all succeed, the invitation was found, the
  database holds the new row after the rows the session had, and the invitation's row
  carries the marks of \<^verbatim>\<open>mark_invite_used\<close>.
\<close>

lemma join_after_create_Inr:
  assumes "join_after_create env username email code user_id s1 = (Inr u, s2)"
  shows "\<exists>invite expires.
           find (\<lambda>i. inv_code i = code) (invitations_tbl (session s1)) = Some invite \<and>
           expires_of env invite = Inr expires \<and>
           users_tbl (committed s2) =
             users_tbl (session s1) @ [new_user_of username email user_id code expires] \<and>
           invitations_tbl (committed s2) =
             update_first (\<lambda>i. inv_code i = inv_code invite)
               (\<lambda>i. i\<lparr>inv_used := (if \<not> inv_unlimited invite then True else inv_used invite),
                       inv_used_at := Some (now env),
                       inv_used_by := Some (new_user_of username email user_id code expires)\<rparr>)
               (invitations_tbl (session s1)) \<and>
           session s2 = committed s2"
  using assms unfolding join_after_create_def
  apply (elim exn_bind_cases)
  apply (auto simp: lift_def session_add_def commit_def mark_invite_used_def notify_def remote_only_def
         dest!: set_specific_folders_remote_only split: if_splits option.splits)
  done

text \<open>
  Whatever the outcome, the later steps send no \<^verbatim>\<open>DELETE\<close>, and they either leave
  the database as it was or leave the new row in it.
\<close>

lemma join_after_create_effect:
  assumes "join_after_create env username email code user_id s1 = (r, s2)"
  shows "filter is_delete (requests s2) = filter is_delete (requests s1) \<and>
         (committed s2 = committed s1 \<or>
          (\<exists>expires. new_user_of username email user_id code expires \<in> set (users_tbl (committed s2))))"
  using assms unfolding join_after_create_def
  apply (elim exn_bind_cases)
  apply (auto simp: lift_def session_add_def commit_def mark_invite_used_def notify_def remote_only_def
         dest!: set_specific_folders_remote_only split: if_splits option.splits)
  done

text \<open>\<^verbatim>\<open>join\<close> once the checks before the \<^verbatim>\<open>try\<close> have passed.\<close>

lemma join_valid:
  assumes "email_fullmatch email" and "8 \<le> length password" and "length password \<le> 20"
    and "password = confirm" and "fst (invite_valid env (session s) code)"
    and "\<forall>u\<in>set (users_tbl (session s)). u_username u \<noteq> username \<and> u_email u \<noteq> email"
  shows "join env username password confirm email code s =
           (case join_try env username password email code s of
              (Inr u, s') \<Rightarrow> ((True, []), s')
            | (Inl e, s') \<Rightarrow>
                ((False, unexpected_error_message), rollback (s'\<lparr>log := log s' @ [JoinError e]\<rparr>)))"
proof -
  have "find (\<lambda>u. u_username u = username \<or> u_email u = email) (users_tbl (session s)) = None"
    using assms(6) by (auto simp: find_None_iff)
  then show ?thesis using assms(1-5) by (simp add: join_def)
qed

text \<open>Conversely, a run that returns success passed every check.\<close>

lemma join_True:
  assumes "join env username password confirm email code s = ((True, msg), s')"
  shows "\<exists>u. join_try env username password email code s = (Inr u, s')"
  using assms by (auto simp: join_def split: if_splits prod.splits sum.splits)

section \<open>Input validation (C10)\<close>

text \<open>
  C10. \<^verbatim>\<open>join\<close> checks its input before anything else: when the e-mail address does
  not match the pattern, or the password has fewer than 8 or more than 20 characters, or
  the confirmation differs, or the invitation code is not valid, or a local user has the
  same username or the same e-mail address, it returns \<open>False\<close> with the message of the
  first check that failed, and the state it returns is the state it was given: no request
  was sent, and neither the database nor the session nor the log changed.
\<close>

theorem join_rejects_invalid_input:
  assumes "\<not> email_fullmatch email
         \<or> length password < 8 \<or> 20 < length password
         \<or> password \<noteq> confirm
         \<or> \<not> fst (invite_valid env (session s) code)
         \<or> (\<exists>u\<in>set (users_tbl (session s)). u_username u = username \<or> u_email u = email)"
  shows "snd (join env username password confirm email code s) = s
       \<and> fst (fst (join env username password confirm email code s)) = False
       \<and> snd (fst (join env username password confirm email code s)) =
           (if \<not> email_fullmatch email then ''Invalid e-mail address.''
            else if length password < 8 \<or> 20 < length password then password_length_message
            else if password \<noteq> confirm then ''Passwords do not match.''
            else if \<not> fst (invite_valid env (session s) code)
              then snd (invite_valid env (session s) code)
            else ''User or e-mail already exists.'')"
proof -
  have dup: "(find (\<lambda>u. u_username u = username \<or> u_email u = email) (users_tbl (session s)) \<noteq> None)
               = (\<exists>u\<in>set (users_tbl (session s)). u_username u = username \<or> u_email u = email)"
    by (auto simp: find_None_iff)
  show ?thesis
    using assms unfolding join_def dup by auto
qed

theorem join_rejects_invalid_input_witness:
  "length ''short'' < 8
   \<and> join (example_env created_u1 (Inr None) never) ''carol'' ''short'' ''short''
        ''carol@example.org'' ''CODE'' (example_state [] JNull)
     = ((False, password_length_message), example_state [] JNull)"
proof -
  have e: "email_fullmatch ''carol@example.org''" by code_simp
  have "snd (join (example_env created_u1 (Inr None) never) ''carol'' ''short'' ''short''
               ''carol@example.org'' ''CODE'' (example_state [] JNull)) = example_state [] JNull
      \<and> fst (join (example_env created_u1 (Inr None) never) ''carol'' ''short'' ''short''
               ''carol@example.org'' ''CODE'' (example_state [] JNull)) = (False, password_length_message)"
    using e join_rejects_invalid_input [of "''carol@example.org''" "''short''" "''short''"
        "example_env created_u1 (Inr None) never" "example_state [] JNull" "''CODE''" "''carol''"]
    by (simp add: prod_eq_iff)
  then show ?thesis by (simp add: prod_eq_iff)
qed

section \<open>Failure of the account creation (C5)\<close>

text \<open>
  C5. When the input is valid and the request that creates the remote account raises,
  \<^verbatim>\<open>join\<close> returns \<open>False\<close> with the generic message. The exception itself goes to
  the log only. The database is what it was, so no user row was created and the
  invitation was not marked; the session is rolled back to the database; the one request
  sent is the failed one.
\<close>

theorem join_create_account_fails:
  assumes "email_fullmatch email" and "8 \<le> length password" and "length password \<le> 20"
    and "password = confirm" and "fst (invite_valid env (session s) code)"
    and "\<forall>u\<in>set (users_tbl (session s)). u_username u \<noteq> username \<and> u_email u \<noteq> email"
    and "respond env (Post ''/Users/New'' (JObj [(''Name'', JStr username)])) = Inl e"
  shows "join env username password confirm email code s =
           ((False, unexpected_error_message),
            s\<lparr>session := committed s,
              requests := requests s @ [Post ''/Users/New'' (JObj [(''Name'', JStr username)])],
              log := log s @ [JoinError e]\<rparr>)
       \<and> committed (snd (join env username password confirm email code s)) = committed s"
proof -
  have "join_try env username password email code s =
          (Inl e, s\<lparr>requests := requests s @ [Post ''/Users/New'' (JObj [(''Name'', JStr username)])]\<rparr>)"
    using assms(7) by (simp add: join_try_def create_user_def exn_bind_def post_def http_def)
  then show ?thesis
    using join_valid [OF assms(1-6)] by (simp add: rollback_def)
qed

theorem join_create_account_fails_witness:
  "join (example_env (Inl (HTTPError 500)) (Inr None) never) ''carol'' ''password1'' ''password1''
        ''carol@example.org'' ''CODE'' (example_state [] (JInt 7)) =
     ((False, unexpected_error_message),
      (example_state [] (JInt 7))
        \<lparr>requests := [Post ''/Users/New'' (JObj [(''Name'', JStr ''carol'')])],
         log := [JoinError (HTTPError 500)]\<rparr>)"
proof -
  have e: "email_fullmatch ''carol@example.org''" by code_simp
  have r: "respond (example_env (Inl (HTTPError 500)) (Inr None) never)
             (Post ''/Users/New'' (JObj [(''Name'', JStr ''carol'')])) = Inl (HTTPError 500)"
    by (simp add: example_env_def example_server_def)
  show ?thesis
    using join_create_account_fails [of "''carol@example.org''" "''password1''" "''password1''"
        "example_env (Inl (HTTPError 500)) (Inr None) never" "example_state [] (JInt 7)" "''CODE''"
        "''carol''" "HTTPError 500", OF e _ _ _ _ _ r]
    by (simp add: example_env_def example_state_def example_tables_def)
qed

text \<open>\<^verbatim>\<open>join\<close> when one of the checks before the \<^verbatim>\<open>try\<close> fails.\<close>

lemma join_not_valid:
  assumes "\<not> (email_fullmatch email \<and> 8 \<le> length password \<and> length password \<le> 20 \<and>
              password = confirm \<and> fst (invite_valid env (session s) code) \<and>
              (\<forall>u\<in>set (users_tbl (session s)). u_username u \<noteq> username \<and> u_email u \<noteq> email))"
  shows "snd (join env username password confirm email code s) = s \<and>
         \<not> fst (fst (join env username password confirm email code s))"
proof -
  have dup: "(find (\<lambda>u. u_username u = username \<or> u_email u = email) (users_tbl (session s)) \<noteq> None)
               = (\<exists>u\<in>set (users_tbl (session s)). u_username u = username \<or> u_email u = email)"
    by (auto simp: find_None_iff)
  show ?thesis
    using assms unfolding join_def dup by auto
qed

text \<open>The three ways \<^verbatim>\<open>join\<close> can go once the checks have passed.\<close>

lemma join_valid_cases:
  assumes "email_fullmatch email" and "8 \<le> length password" and "length password \<le> 20"
    and "password = confirm" and "fst (invite_valid env (session s) code)"
    and "\<forall>u\<in>set (users_tbl (session s)). u_username u \<noteq> username \<and> u_email u \<noteq> email"
  obtains
    (no_account) e s1 where
      "create_user env username password s = (Inl e, s1)"
      "join env username password confirm email code s =
         ((False, unexpected_error_message), rollback (s1\<lparr>log := log s1 @ [JoinError e]\<rparr>))"
  | (late_failure) user_id s1 e s2 where
      "create_user env username password s = (Inr user_id, s1)"
      "join_after_create env username email code user_id s1 = (Inl e, s2)"
      "join env username password confirm email code s =
         ((False, unexpected_error_message), rollback (s2\<lparr>log := log s2 @ [JoinError e]\<rparr>))"
  | (success) user_id s1 s2 where
      "create_user env username password s = (Inr user_id, s1)"
      "join_after_create env username email code user_id s1 = (Inr (), s2)"
      "join env username password confirm email code s = ((True, []), s2)"
proof (cases "create_user env username password s")
  case (Pair r1 s1)
  show ?thesis
  proof (cases r1)
    case (Inl e)
    with Pair have "join_try env username password email code s = (Inl e, s1)"
      by (simp add: join_try_def exn_bind_def)
    with join_valid [OF assms] Pair Inl no_account show ?thesis by simp
  next
    case (Inr user_id)
    obtain r2 s2 where after: "join_after_create env username email code user_id s1 = (r2, s2)"
      by (cases "join_after_create env username email code user_id s1")
    with Pair Inr have jt: "join_try env username password email code s = (r2, s2)"
      by (simp add: join_try_def exn_bind_def)
    show ?thesis
    proof (cases r2)
      case (Inl e)
      with jt join_valid [OF assms] Pair Inr after late_failure show ?thesis by simp
    next
      case (Inr u)
      with jt join_valid [OF assms] Pair \<open>r1 = Inr user_id\<close> after success show ?thesis by simp
    qed
  qed
qed

section \<open>Failure after the account was created (C7)\<close>

text \<open>
  C7. When the input is valid, \<^verbatim>\<open>create_user\<close> has returned the identifier of the new
  account and one of the later steps raises (the invitation lookup, the library
  permissions, the expiration, the creation of the local row or the marking of the
  invitation), \<^verbatim>\<open>join\<close> returns \<open>False\<close> with the generic message and logs the
  exception. The local transaction is rolled back: the database is left as it was when
  the step raised (\<open>s2\<close>), nothing that was pending is written to it, and the session is
  reset to it. No \<^verbatim>\<open>DELETE\<close> request is sent, so the remote account stays.
\<close>

theorem join_late_failure_keeps_remote_account:
  assumes "email_fullmatch email" and "8 \<le> length password" and "length password \<le> 20"
    and "password = confirm" and "fst (invite_valid env (session s) code)"
    and "\<forall>u\<in>set (users_tbl (session s)). u_username u \<noteq> username \<and> u_email u \<noteq> email"
    and "create_user env username password s = (Inr user_id, s1)"
    and "join_after_create env username email code user_id s1 = (Inl e, s2)"
  shows "fst (join env username password confirm email code s) = (False, unexpected_error_message)
       \<and> committed (snd (join env username password confirm email code s)) = committed s2
       \<and> session (snd (join env username password confirm email code s)) = committed s2
       \<and> session (snd (join env username password confirm email code s)) =
           committed (snd (join env username password confirm email code s))
       \<and> commits (snd (join env username password confirm email code s)) = commits s2
       \<and> filter is_delete (requests (snd (join env username password confirm email code s))) =
           filter is_delete (requests s)
       \<and> log (snd (join env username password confirm email code s)) = log s2 @ [JoinError e]"
proof -
  have "join_try env username password email code s = (Inl e, s2)"
    using assms(7,8) by (simp add: join_try_def exn_bind_def)
  then have j: "join env username password confirm email code s =
      ((False, unexpected_error_message), rollback (s2\<lparr>log := log s2 @ [JoinError e]\<rparr>))"
    using join_valid [OF assms(1-6)] by simp
  have "filter is_delete (requests s1) = filter is_delete (requests s)"
    using create_user_remote_only [OF assms(7)] by (simp add: remote_only_def)
  moreover have "filter is_delete (requests s2) = filter is_delete (requests s1)"
    using join_after_create_effect [OF assms(8)] by simp
  ultimately show ?thesis
    unfolding j by (simp add: rollback_def)
qed

theorem join_late_failure_keeps_remote_account_witness:
  "fst (join (example_env created_u1 (Inr None) (\<lambda>n. True)) ''carol'' ''password1'' ''password1''
          ''carol@example.org'' ''CODE'' (example_state [] (JInt 7))) = (False, unexpected_error_message)
   \<and> filter is_delete (requests (snd (join (example_env created_u1 (Inr None) (\<lambda>n. True)) ''carol''
          ''password1'' ''password1'' ''carol@example.org'' ''CODE'' (example_state [] (JInt 7))))) = []
   \<and> users_tbl (committed (snd (join (example_env created_u1 (Inr None) (\<lambda>n. True)) ''carol''
          ''password1'' ''password1'' ''carol@example.org'' ''CODE'' (example_state [] (JInt 7))))) = []
   \<and> users_tbl (session (snd (join (example_env created_u1 (Inr None) (\<lambda>n. True)) ''carol''
          ''password1'' ''password1'' ''carol@example.org'' ''CODE'' (example_state [] (JInt 7))))) = []"
proof -
  let ?env = "example_env created_u1 (Inr None) (\<lambda>n. True)"
  let ?s = "example_state [] (JInt 7)"
  let ?s1 = "snd (create_user ?env ''carol'' ''password1'' ?s)"
  let ?s2 = "snd (join_after_create ?env ''carol'' ''carol@example.org'' ''CODE'' ''u1'' ?s1)"
  have e: "email_fullmatch ''carol@example.org''" by code_simp
  have v: "fst (invite_valid ?env (session ?s) ''CODE'')"
    by (simp add: example_env_def)
  have u: "\<forall>u\<in>set (users_tbl (session ?s)). u_username u \<noteq> ''carol'' \<and> u_email u \<noteq> ''carol@example.org''"
    by (simp add: example_state_def example_tables_def)
  have "fst (create_user ?env ''carol'' ''password1'' ?s) = Inr ''u1''" by code_simp
  then have c: "create_user ?env ''carol'' ''password1'' ?s = (Inr ''u1'', ?s1)"
    by (simp add: prod_eq_iff)
  have "fst (join_after_create ?env ''carol'' ''carol@example.org'' ''CODE'' ''u1'' ?s1) = Inl DatabaseError"
    by code_simp
  then have a: "join_after_create ?env ''carol'' ''carol@example.org'' ''CODE'' ''u1'' ?s1 = (Inl DatabaseError, ?s2)"
    by (simp add: prod_eq_iff)
  have r: "requests ?s = []" by (simp add: example_state_def)
  have d: "users_tbl (committed ?s2) = []" by code_simp
  show ?thesis
    using join_late_failure_keeps_remote_account [OF e _ _ _ v u c a] r d by simp
qed

section \<open>Failure of the password call (C2)\<close>

text \<open>
  The later steps succeed when the environment lets them: the catalog and the account are
  fetched, the policy is accepted, the duration of the invitation gives an expiration,
  the two commits go through and the notification is delivered.
\<close>

lemma set_specific_folders_succeeds:
  assumes "respond env (Get ''/Library/MediaFolders'') = Inr (Some j)"
    and "get_default j ''Items'' (JList []) = Inr items"
    and "py_iter items = Inr media_folders"
    and "id_to_name_of media_folders [] = Inr id_to_name"
    and "name_to_id_of media_folders [] = Inr name_to_id"
    and "respond env (Get (''/Users/'' @ user_id)) = Inr (Some account)"
    and "getitem account ''Policy'' = Inr (JObj current)"
    and "respond env (Post (''/Users/'' @ user_id @ ''/Policy'')
           (JObj (dict_update
                    (dict_update current (policy_patch (folder_ids_of env id_to_name name_to_id names)))
                    playback_permissions))) = Inr body"
  shows "fst (set_specific_folders env user_id names s) = Inr ()"
  using assms
  by (simp add: set_specific_folders_def exn_bind_def get_def http_def lift_def sum_bind_def
        json_of_def write_log_def get_user_def set_policy_def post_def Let_def
        split: prod.splits sum.splits)

lemma join_after_create_succeeds:
  assumes "find (\<lambda>i. inv_code i = code) (invitations_tbl (session s1)) = Some invite"
    and "fst (set_specific_folders env user_id
           (if inv_libraries invite \<noteq> [] then map lib_external_id (inv_libraries invite)
            else map lib_external_id (filter lib_enabled (libraries_tbl (session s1)))) s1) = Inr ()"
    and "expires_of env invite = Inr expires"
    and "\<not> commit_fails env (commits s1)"
    and "\<not> commit_fails env (Suc (commits s1))"
    and "notify_raises env ''New User'' (joined_message username) ''tada'' = None"
  shows "fst (join_after_create env username email code user_id s1) = Inr ()"
proof -
  let ?sections = "if inv_libraries invite \<noteq> [] then map lib_external_id (inv_libraries invite)
            else map lib_external_id (filter lib_enabled (libraries_tbl (session s1)))"
  obtain sc where ssf: "set_specific_folders env user_id ?sections s1 = (Inr (), sc)"
    using assms(2) by (cases "set_specific_folders env user_id ?sections s1") simp
  from set_specific_folders_remote_only [OF ssf]
  have sc: "session sc = session s1" "commits sc = commits s1"
    by (simp_all add: remote_only_def)
  show ?thesis
    using assms(1,3-6) ssf sc
    by (simp add: join_after_create_def exn_bind_def lift_def session_add_def commit_def
          mark_invite_used_def notify_def)
qed

lemma expires_of_Inr:
  assumes "truthy (inv_duration invite) \<longrightarrow>
             py_int (inv_duration invite) = Inr days \<and> \<bar>days\<bar> \<le> 999999999 \<and>
             0 \<le> utcnow env + days * microseconds_per_day \<and>
             utcnow env + days * microseconds_per_day < 3652059 * microseconds_per_day"
  shows "expires_of env invite =
           Inr (if truthy (inv_duration invite)
                then Some (utcnow env + days * microseconds_per_day) else None)"
  using assms
  by (auto simp: expires_of_def sum_bind_def timedelta_days_def datetime_add_def Let_def)

text \<open>
  C2 says that whenever the account is created and the request that sets the password
  raises, \<^verbatim>\<open>join\<close> returns \<open>(True, "")\<close> and a local row is created. The exception is
  indeed swallowed, but the steps after \<^verbatim>\<open>create_user\<close> can still fail: when the
  password request times out and the commit raises, \<^verbatim>\<open>create_user\<close> returns the
  identifier and \<^verbatim>\<open>join\<close> returns \<open>False\<close> with the generic message, with no row in the
  database.
\<close>

theorem join_password_failure_then_commit_failure:
  "fst (create_user (example_env created_u1 (Inl Timeout) (\<lambda>n. True)) ''carol'' ''password1''
          (example_state [] (JInt 7))) = Inr ''u1''
   \<and> fst (join (example_env created_u1 (Inl Timeout) (\<lambda>n. True)) ''carol'' ''password1'' ''password1''
          ''carol@example.org'' ''CODE'' (example_state [] (JInt 7))) = (False, unexpected_error_message)
   \<and> users_tbl (committed (snd (join (example_env created_u1 (Inl Timeout) (\<lambda>n. True)) ''carol''
          ''password1'' ''password1'' ''carol@example.org'' ''CODE'' (example_state [] (JInt 7))))) = []"
  by code_simp

text \<open>
  C2, amended. When the input is valid, the account is created and the request that sets
  the password raises, the exception is logged and nothing else: \<^verbatim>\<open>create_user\<close>
  returns the identifier of the new account and the workflow goes on. When the later
  steps succeed as well, \<^verbatim>\<open>join\<close> returns \<open>(True, "")\<close> and the database holds the new
  user row. The later steps succeed when the invitation has a row, the catalog and the
  account are fetched and the account has a policy object, the server accepts the policy,
  the duration of the invitation (if it is truthy) is a number of days within the range of
  dates, the two commits do not raise and the notification is delivered.
\<close>

theorem join_password_failure_is_swallowed:
  assumes "email_fullmatch email" and "8 \<le> length password" and "length password \<le> 20"
    and "password = confirm" and "fst (invite_valid env (session s) code)"
    and "\<forall>u\<in>set (users_tbl (session s)). u_username u \<noteq> username \<and> u_email u \<noteq> email"
    and "respond env (Post ''/Users/New'' (JObj [(''Name'', JStr username)])) = Inr (Some created)"
    and "getitem created ''Id'' = Inr (JStr user_id)"
    and "respond env (Post (''/Users/'' @ user_id @ ''/Password'')
           (JObj [(''NewPw'', JStr password), (''CurrentPw'', JStr []),
                  (''ResetPassword'', JBool False)])) = Inl e"
    and "find (\<lambda>i. inv_code i = code) (invitations_tbl (session s)) = Some invite"
    and "names = (if inv_libraries invite \<noteq> [] then map lib_external_id (inv_libraries invite)
                  else map lib_external_id (filter lib_enabled (libraries_tbl (session s))))"
    and "respond env (Get ''/Library/MediaFolders'') = Inr (Some j)"
    and "get_default j ''Items'' (JList []) = Inr items"
    and "py_iter items = Inr media_folders"
    and "id_to_name_of media_folders [] = Inr id_to_name"
    and "name_to_id_of media_folders [] = Inr name_to_id"
    and "respond env (Get (''/Users/'' @ user_id)) = Inr (Some account)"
    and "getitem account ''Policy'' = Inr (JObj current)"
    and "respond env (Post (''/Users/'' @ user_id @ ''/Policy'')
           (JObj (dict_update
                    (dict_update current (policy_patch (folder_ids_of env id_to_name name_to_id names)))
                    playback_permissions))) = Inr body"
    and "truthy (inv_duration invite) \<longrightarrow>
           py_int (inv_duration invite) = Inr days \<and> \<bar>days\<bar> \<le> 999999999 \<and>
           0 \<le> utcnow env + days * microseconds_per_day \<and>
           utcnow env + days * microseconds_per_day < 3652059 * microseconds_per_day"
    and "\<not> commit_fails env (commits s)" and "\<not> commit_fails env (Suc (commits s))"
    and "notify_raises env ''New User'' (joined_message username) ''tada'' = None"
  shows "create_user env username password s =
           (Inr user_id,
            s\<lparr>requests := requests s @
                 [Post ''/Users/New'' (JObj [(''Name'', JStr username)]),
                  Post (''/Users/'' @ user_id @ ''/Password'')
                    (JObj [(''NewPw'', JStr password), (''CurrentPw'', JStr []),
                           (''ResetPassword'', JBool False)])],
               log := log s @ [PasswordSetFailed username e]\<rparr>)
       \<and> fst (join env username password confirm email code s) = (True, [])
       \<and> users_tbl (committed (snd (join env username password confirm email code s))) =
           users_tbl (session s) @
             [new_user_of username email user_id code
                (if truthy (inv_duration invite)
                 then Some (utcnow env + days * microseconds_per_day) else None)]
       \<and> session (snd (join env username password confirm email code s)) =
           committed (snd (join env username password confirm email code s))"
proof -
  let ?s1 = "s\<lparr>requests := requests s @
                 [Post ''/Users/New'' (JObj [(''Name'', JStr username)]),
                  Post (''/Users/'' @ user_id @ ''/Password'')
                    (JObj [(''NewPw'', JStr password), (''CurrentPw'', JStr []),
                           (''ResetPassword'', JBool False)])],
               log := log s @ [PasswordSetFailed username e]\<rparr>"
  let ?expires = "if truthy (inv_duration invite)
                  then Some (utcnow env + days * microseconds_per_day) else None"
  have c: "create_user env username password s = (Inr user_id, ?s1)"
    using assms(7-9)
    by (simp add: create_user_def exn_bind_def post_def http_def lift_def sum_bind_def json_of_def)
  have f: "find (\<lambda>i. inv_code i = code) (invitations_tbl (session ?s1)) = Some invite"
    using assms(10) by simp
  have n: "(if inv_libraries invite \<noteq> [] then map lib_external_id (inv_libraries invite)
            else map lib_external_id (filter lib_enabled (libraries_tbl (session ?s1)))) = names"
    using assms(11) by simp
  have ssf: "fst (set_specific_folders env user_id
           (if inv_libraries invite \<noteq> [] then map lib_external_id (inv_libraries invite)
            else map lib_external_id (filter lib_enabled (libraries_tbl (session ?s1)))) ?s1) = Inr ()"
    unfolding n by (rule set_specific_folders_succeeds [OF assms(12-19)])
  have ex: "expires_of env invite = Inr ?expires"
    by (rule expires_of_Inr [OF assms(20)])
  have "fst (join_after_create env username email code user_id ?s1) = Inr ()"
    by (rule join_after_create_succeeds [OF f ssf ex]) (use assms(21-23) in simp_all)
  then obtain s2 where a: "join_after_create env username email code user_id ?s1 = (Inr (), s2)"
    by (cases "join_after_create env username email code user_id ?s1") simp
  from c a have "join_try env username password email code s = (Inr (), s2)"
    by (simp add: join_try_def exn_bind_def)
  then have jn: "join env username password confirm email code s = ((True, []), s2)"
    using join_valid [OF assms(1-6)] by simp
  from join_after_create_Inr [OF a] f ex
  have "users_tbl (committed s2) =
          users_tbl (session s) @ [new_user_of username email user_id code ?expires]"
    and "session s2 = committed s2"
    by auto
  with c jn show ?thesis by simp
qed

theorem join_password_failure_is_swallowed_witness:
  "fst (create_user (example_env created_u1 (Inl Timeout) never) ''carol'' ''password1''
          (example_state [] (JInt 7))) = Inr ''u1''
   \<and> fst (join (example_env created_u1 (Inl Timeout) never) ''carol'' ''password1'' ''password1''
          ''carol@example.org'' ''CODE'' (example_state [] (JInt 7))) = (True, [])
   \<and> users_tbl (committed (snd (join (example_env created_u1 (Inl Timeout) never) ''carol''
          ''password1'' ''password1'' ''carol@example.org'' ''CODE'' (example_state [] (JInt 7))))) =
        [new_user_of ''carol'' ''carol@example.org'' ''u1'' ''CODE''
           (Some (utcnow (example_env created_u1 (Inl Timeout) never) + 7 * microseconds_per_day))]"
proof -
  let ?env = "example_env created_u1 (Inl Timeout) never"
  let ?s = "example_state [] (JInt 7)"
  let ?items = "[JObj [(''Id'', JStr ''f1''), (''Name'', JStr ''Movies'')],
                 JObj [(''Id'', JStr ''f2''), (''Name'', JStr ''Shows'')]]"
  have 1: "email_fullmatch ''carol@example.org''" by code_simp
  have 2: "8 \<le> length ''password1''" by simp
  have 3: "length ''password1'' \<le> 20" by simp
  have 5: "fst (invite_valid ?env (session ?s) ''CODE'')"
    by (simp add: example_env_def)
  have 6: "\<forall>u\<in>set (users_tbl (session ?s)). u_username u \<noteq> ''carol'' \<and> u_email u \<noteq> ''carol@example.org''"
    by (simp add: example_state_def example_tables_def)
  have 7: "respond ?env (Post ''/Users/New'' (JObj [(''Name'', JStr ''carol'')])) =
             Inr (Some (JObj [(''Name'', JStr ''carol''), (''Id'', JStr ''u1'')]))"
    by (simp add: example_env_def example_server_def created_u1_def)
  have 8: "getitem (JObj [(''Name'', JStr ''carol''), (''Id'', JStr ''u1'')]) ''Id'' = Inr (JStr ''u1'')"
    by simp
  have 9: "respond ?env (Post (''/Users/'' @ ''u1'' @ ''/Password'')
             (JObj [(''NewPw'', JStr ''password1''), (''CurrentPw'', JStr []),
                    (''ResetPassword'', JBool False)])) = Inl Timeout"
    by (simp add: example_env_def example_server_def)
  have 10: "find (\<lambda>i. inv_code i = ''CODE'') (invitations_tbl (session ?s)) =
              Some (example_invitation [] (JInt 7))"
    by (simp add: example_state_def example_tables_def example_invitation_def)
  have 11: "[''f1''] = (if inv_libraries (example_invitation [] (JInt 7)) \<noteq> []
                then map lib_external_id (inv_libraries (example_invitation [] (JInt 7)))
                else map lib_external_id (filter lib_enabled (libraries_tbl (session ?s))))"
    by (simp add: example_state_def example_tables_def example_invitation_def)
  have 12: "respond ?env (Get ''/Library/MediaFolders'') = Inr (Some example_folders)"
    by (simp add: example_env_def example_server_def)
  have 13: "get_default example_folders ''Items'' (JList []) = Inr (JList ?items)"
    by (simp add: example_folders_def)
  have 14: "py_iter (JList ?items) = Inr ?items" by simp
  have 15: "id_to_name_of ?items [] = Inr [(''f1'', ''Movies''), (''f2'', ''Shows'')]"
    by (simp add: sum_bind_def)
  have 16: "name_to_id_of ?items [] = Inr [(''Movies'', ''f1''), (''Shows'', ''f2'')]"
    by (simp add: sum_bind_def)
  have 17: "respond ?env (Get (''/Users/'' @ ''u1'')) = Inr (Some example_account)"
    by (simp add: example_env_def example_server_def)
  have 18: "getitem example_account ''Policy'' =
             Inr (JObj [(''EnableMediaPlayback'', JBool False), (''IsAdministrator'', JBool False),
                        (''EnabledFolders'', JList [JStr ''f9''])])"
    by (simp add: example_account_def)
  have 19: "respond ?env (Post (''/Users/'' @ ''u1'' @ ''/Policy'') payload) = Inr None" for payload
    by (simp add: example_env_def example_server_def)
  have 20: "truthy (inv_duration (example_invitation [] (JInt 7))) \<longrightarrow>
           py_int (inv_duration (example_invitation [] (JInt 7))) = Inr 7 \<and> \<bar>7::int\<bar> \<le> 999999999 \<and>
           0 \<le> utcnow ?env + 7 * microseconds_per_day \<and>
           utcnow ?env + 7 * microseconds_per_day < 3652059 * microseconds_per_day"
    by (simp add: example_invitation_def example_env_def microseconds_per_day_def)
  have 21: "\<not> commit_fails ?env (commits ?s)" by (simp add: example_env_def never_def)
  have 22: "\<not> commit_fails ?env (Suc (commits ?s))" by (simp add: example_env_def never_def)
  have 23: "notify_raises ?env ''New User'' (joined_message ''carol'') ''tada'' = None"
    by (simp add: example_env_def)
  have t: "truthy (inv_duration (example_invitation [] (JInt 7)))"
    by (simp add: example_invitation_def)
  have u: "users_tbl (session ?s) = []" by (simp add: example_state_def example_tables_def)
  from join_password_failure_is_swallowed [OF 1 2 3 refl 5 6 7 8 9 10 11 12 13 14 15 16 17 18 19 20 21 22 23]
  show ?thesis using t u by simp
qed

section \<open>The two commits of \<^verbatim>\<open>join\<close> (C1)\<close>

text \<open>
  C1 says that the new user row and the marks on the invitation are committed together:
  both persisted or neither. The source commits twice, once after \<^verbatim>\<open>db.session.add\<close>
  and once inside \<^verbatim>\<open>mark_invite_used\<close>. When the second commit raises, the database
  holds the new row and the invitation is as it was.
\<close>

theorem join_user_without_invitation_mark:
  "fst (join (example_env created_u1 (Inr None) second_only) ''carol'' ''password1'' ''password1''
          ''carol@example.org'' ''CODE'' (example_state [] JNull)) = (False, unexpected_error_message)
   \<and> users_tbl (committed (snd (join (example_env created_u1 (Inr None) second_only) ''carol''
          ''password1'' ''password1'' ''carol@example.org'' ''CODE'' (example_state [] JNull)))) =
        [new_user_of ''carol'' ''carol@example.org'' ''u1'' ''CODE'' None]
   \<and> invitations_tbl (committed (snd (join (example_env created_u1 (Inr None) second_only) ''carol''
          ''password1'' ''password1'' ''carol@example.org'' ''CODE'' (example_state [] JNull)))) =
        [\<lparr>inv_code = ''CODE'', inv_used = False, inv_unlimited = False, inv_used_at = None,
          inv_used_by = None, inv_libraries = [], inv_duration = JNull\<rparr>]"
  by code_simp

text \<open>
  C1, amended. The user row is committed first and the marks on the invitation second.
  Every run of \<^verbatim>\<open>join\<close> either leaves the database as it was or leaves the new user
  row in it, so the invitation is never marked without the row. A run that returns
  success has persisted both: the new row after the rows the session had, and on the
  invitation's row \<open>used\<close> set unless the invitation is unlimited, the time of use and the
  user.
\<close>

theorem join_commits_user_then_invitation:
  "(committed (snd (join env username password confirm email code s)) = committed s
      \<or> (\<exists>user_id expires. new_user_of username email user_id code expires
             \<in> set (users_tbl (committed (snd (join env username password confirm email code s))))))
   \<and> (fst (fst (join env username password confirm email code s)) \<longrightarrow>
        (\<exists>invite user_id expires.
           find (\<lambda>i. inv_code i = code) (invitations_tbl (session s)) = Some invite \<and>
           users_tbl (committed (snd (join env username password confirm email code s))) =
             users_tbl (session s) @ [new_user_of username email user_id code expires] \<and>
           invitations_tbl (committed (snd (join env username password confirm email code s))) =
             update_first (\<lambda>i. inv_code i = inv_code invite)
               (\<lambda>i. i\<lparr>inv_used := (if \<not> inv_unlimited invite then True else inv_used invite),
                       inv_used_at := Some (now env),
                       inv_used_by := Some (new_user_of username email user_id code expires)\<rparr>)
               (invitations_tbl (session s))))"
proof (cases "email_fullmatch email \<and> 8 \<le> length password \<and> length password \<le> 20 \<and>
              password = confirm \<and> fst (invite_valid env (session s) code) \<and>
              (\<forall>u\<in>set (users_tbl (session s)). u_username u \<noteq> username \<and> u_email u \<noteq> email)")
  case False
  from join_not_valid [OF False] show ?thesis by simp
next
  case True
  then have v: "email_fullmatch email" "8 \<le> length password" "length password \<le> 20"
    "password = confirm" "fst (invite_valid env (session s) code)"
    "\<forall>u\<in>set (users_tbl (session s)). u_username u \<noteq> username \<and> u_email u \<noteq> email"
    by blast+
  from v show ?thesis
  proof (cases rule: join_valid_cases)
    case (no_account e s1)
    from create_user_remote_only [OF no_account(1)] no_account(2)
    show ?thesis by (simp add: rollback_def remote_only_def)
  next
    case (late_failure user_id s1 e s2)
    from create_user_remote_only [OF late_failure(1)]
    have "committed s1 = committed s" by (simp add: remote_only_def)
    with join_after_create_effect [OF late_failure(2)] late_failure(3)
    show ?thesis by (auto simp: rollback_def)
  next
    case (success user_id s1 s2)
    from create_user_remote_only [OF success(1)]
    have "session s1 = session s" by (simp add: remote_only_def)
    with join_after_create_Inr [OF success(2)] obtain invite expires where
      f: "find (\<lambda>i. inv_code i = code) (invitations_tbl (session s)) = Some invite"
      and u: "users_tbl (committed s2) =
                users_tbl (session s) @ [new_user_of username email user_id code expires]"
      and i: "invitations_tbl (committed s2) =
                update_first (\<lambda>i. inv_code i = inv_code invite)
                  (\<lambda>i. i\<lparr>inv_used := (if \<not> inv_unlimited invite then True else inv_used invite),
                          inv_used_at := Some (now env),
                          inv_used_by := Some (new_user_of username email user_id code expires)\<rparr>)
                  (invitations_tbl (session s))"
      by auto
    have "new_user_of username email user_id code expires \<in> set (users_tbl (committed s2))"
      using u by simp
    then have "\<exists>user_id expires. new_user_of username email user_id code expires
                 \<in> set (users_tbl (committed s2))"
      by blast
    moreover have "\<exists>invite user_id expires.
           find (\<lambda>i. inv_code i = code) (invitations_tbl (session s)) = Some invite \<and>
           users_tbl (committed s2) =
             users_tbl (session s) @ [new_user_of username email user_id code expires] \<and>
           invitations_tbl (committed s2) =
             update_first (\<lambda>i. inv_code i = inv_code invite)
               (\<lambda>i. i\<lparr>inv_used := (if \<not> inv_unlimited invite then True else inv_used invite),
                       inv_used_at := Some (now env),
                       inv_used_by := Some (new_user_of username email user_id code expires)\<rparr>)
               (invitations_tbl (session s))"
      using f u i by blast
    ultimately show ?thesis
      unfolding success(3) by simp
  qed
qed

theorem join_commits_user_then_invitation_witness:
  "fst (fst (join (example_env created_u1 (Inr None) never) ''carol'' ''password1'' ''password1''
          ''carol@example.org'' ''CODE'' (example_state [] JNull)))
   \<and> (\<exists>user_id expires.
        users_tbl (committed (snd (join (example_env created_u1 (Inr None) never) ''carol''
          ''password1'' ''password1'' ''carol@example.org'' ''CODE'' (example_state [] JNull)))) =
        users_tbl (session (example_state [] JNull)) @
          [new_user_of ''carol'' ''carol@example.org'' user_id ''CODE'' expires])"
proof -
  have t: "fst (fst (join (example_env created_u1 (Inr None) never) ''carol'' ''password1'' ''password1''
          ''carol@example.org'' ''CODE'' (example_state [] JNull)))"
    by code_simp
  with join_commits_user_then_invitation [of "example_env created_u1 (Inr None) never" "''carol''"
      "''password1''" "''password1''" "''carol@example.org''" "''CODE''" "example_state [] JNull"]
  show ?thesis by blast
qed

section \<open>The expiration of the new user (C9)\<close>

text \<open>
  C9 says that the expiration is set exactly when the duration of the invitation is
  positive. The source tests \<^verbatim>\<open>if inv.duration\<close>, which holds for every number other
  than zero and for every string that is not empty: with the duration \<open>-1\<close>, and with the
  duration \<open>"0"\<close>, \<^verbatim>\<open>join\<close> succeeds and the new row has an expiration, one day before
  the present and the present itself.
\<close>

theorem join_expiration_for_duration_not_positive:
  "fst (join (example_env created_u1 (Inr None) never) ''carol'' ''password1'' ''password1''
          ''carol@example.org'' ''CODE'' (example_state [] (JInt (- 1)))) = (True, [])
   \<and> map u_expires (users_tbl (committed (snd (join (example_env created_u1 (Inr None) never)
          ''carol'' ''password1'' ''password1'' ''carol@example.org'' ''CODE''
          (example_state [] (JInt (- 1))))))) =
        [Some (utcnow (example_env created_u1 (Inr None) never) - microseconds_per_day)]
   \<and> fst (join (example_env created_u1 (Inr None) never) ''carol'' ''password1'' ''password1''
          ''carol@example.org'' ''CODE'' (example_state [] (JStr ''0''))) = (True, [])
   \<and> map u_expires (users_tbl (committed (snd (join (example_env created_u1 (Inr None) never)
          ''carol'' ''password1'' ''password1'' ''carol@example.org'' ''CODE''
          (example_state [] (JStr ''0'')))))) =
        [Some (utcnow (example_env created_u1 (Inr None) never))]"
  by code_simp

text \<open>
  C9, amended. In every successful \<^verbatim>\<open>join\<close> the new row is the last row of the user
  table, and its expiration is the present plus \<^verbatim>\<open>int(inv.duration)\<close> days when the
  duration is truthy (a number other than zero, a string that is not empty), and none
  otherwise. So a positive number of days \<open>d\<close> gives the present plus \<open>d\<close> days, and an
  absent or zero duration gives none.
\<close>

theorem join_expiration:
  assumes "join env username password confirm email code s = ((True, msg), s')"
  shows "\<exists>invite user_id expires.
           find (\<lambda>i. inv_code i = code) (invitations_tbl (session s)) = Some invite \<and>
           users_tbl (committed s') =
             users_tbl (session s) @ [new_user_of username email user_id code expires] \<and>
           (if truthy (inv_duration invite)
            then \<exists>days. py_int (inv_duration invite) = Inr days \<and>
                   expires = Some (utcnow env + days * microseconds_per_day)
            else expires = None) \<and>
           (\<forall>d. inv_duration invite = JInt d \<and> 0 < d \<longrightarrow>
                  expires = Some (utcnow env + d * microseconds_per_day)) \<and>
           (inv_duration invite = JNull \<or> inv_duration invite = JInt 0 \<longrightarrow> expires = None)"
proof -
  from join_True [OF assms] obtain u where "join_try env username password email code s = (Inr u, s')"
    by blast
  then obtain user_id s1 where c: "create_user env username password s = (Inr user_id, s1)"
    and a: "join_after_create env username email code user_id s1 = (Inr u, s')"
    unfolding join_try_def by (auto simp: exn_bind_Inr)
  from create_user_remote_only [OF c] have s1: "session s1 = session s"
    by (simp add: remote_only_def)
  from join_after_create_Inr [OF a] s1 obtain invite expires where
    f: "find (\<lambda>i. inv_code i = code) (invitations_tbl (session s)) = Some invite"
    and e: "expires_of env invite = Inr expires"
    and t: "users_tbl (committed s') =
              users_tbl (session s) @ [new_user_of username email user_id code expires]"
    by auto
  have 1: "if truthy (inv_duration invite)
           then \<exists>days. py_int (inv_duration invite) = Inr days \<and>
                  expires = Some (utcnow env + days * microseconds_per_day)
           else expires = None"
    using e
    by (auto simp: expires_of_def sum_bind_def timedelta_days_def datetime_add_def Let_def
             split: if_splits sum.splits)
  then have "(\<forall>d. inv_duration invite = JInt d \<and> 0 < d \<longrightarrow>
                  expires = Some (utcnow env + d * microseconds_per_day)) \<and>
             (inv_duration invite = JNull \<or> inv_duration invite = JInt 0 \<longrightarrow> expires = None)"
    by (auto split: if_splits)
  with f t 1 show ?thesis by blast
qed

theorem join_expiration_witness:
  "join (example_env created_u1 (Inr None) never) ''carol'' ''password1'' ''password1''
        ''carol@example.org'' ''CODE'' (example_state [] (JInt 7)) =
     ((True, []), snd (join (example_env created_u1 (Inr None) never) ''carol'' ''password1''
        ''password1'' ''carol@example.org'' ''CODE'' (example_state [] (JInt 7))))
   \<and> (\<exists>user_id.
        users_tbl (committed (snd (join (example_env created_u1 (Inr None) never) ''carol''
          ''password1'' ''password1'' ''carol@example.org'' ''CODE'' (example_state [] (JInt 7))))) =
        [new_user_of ''carol'' ''carol@example.org'' user_id ''CODE''
           (Some (utcnow (example_env created_u1 (Inr None) never) + 7 * microseconds_per_day))])"
proof -
  let ?env = "example_env created_u1 (Inr None) never"
  let ?s = "example_state [] (JInt 7)"
  let ?j = "join ?env ''carol'' ''password1'' ''password1'' ''carol@example.org'' ''CODE'' ?s"
  have "fst ?j = (True, [])" by code_simp
  then have j: "?j = ((True, []), snd ?j)" by (simp add: prod_eq_iff)
  have f: "find (\<lambda>i. inv_code i = ''CODE'') (invitations_tbl (session ?s)) =
             Some (example_invitation [] (JInt 7))"
    by (simp add: example_state_def example_tables_def example_invitation_def)
  have u: "users_tbl (session ?s) = []" by (simp add: example_state_def example_tables_def)
  from join_expiration [OF j] f u
  have "\<exists>user_id.
        users_tbl (committed (snd ?j)) =
        [new_user_of ''carol'' ''carol@example.org'' user_id ''CODE''
           (Some (utcnow ?env + 7 * microseconds_per_day))]"
    by (auto simp: example_invitation_def)
  with j show ?thesis by blast
qed

section \<open>The catalog and the resolved list\<close>

lemma field_as_str:
  "sum_bind (getitem item k) as_str = Inr v \<longleftrightarrow> getitem item k = Inr (JStr v)"
proof (cases "getitem item k")
  case (Inl e)
  then show ?thesis by (simp add: sum_bind_def)
next
  case (Inr j)
  then show ?thesis by (cases j) (simp_all add: sum_bind_def)
qed

lemma id_to_name_of_keys:
  "id_to_name_of items acc = Inr m \<Longrightarrow>
     fst ` set m = fst ` set acc \<union> {i. \<exists>item\<in>set items. getitem item ''Id'' = Inr (JStr i)}"
proof (induction items arbitrary: acc)
  case Nil
  then show ?case by simp
next
  case (Cons item items)
  from Cons.prems obtain i n where
    i: "sum_bind (getitem item ''Id'') as_str = Inr i"
    and r: "id_to_name_of items (AList.update i n acc) = Inr m"
    by (auto simp: sum_bind_def split: sum.splits)
  from Cons.IH [OF r] i show ?case
    by (auto simp: field_as_str dom_update)
qed

lemma name_to_id_of_lookup:
  "name_to_id_of items acc = Inr m \<Longrightarrow> map_of m n = Some i \<Longrightarrow>
     map_of acc n = Some i \<or>
     (\<exists>item\<in>set items. getitem item ''Name'' = Inr (JStr n) \<and> getitem item ''Id'' = Inr (JStr i))"
proof (induction items arbitrary: acc)
  case Nil
  then show ?case by simp
next
  case (Cons item items)
  from Cons.prems(1) obtain n' i' where
    n: "sum_bind (getitem item ''Name'') as_str = Inr n'"
    and i: "sum_bind (getitem item ''Id'') as_str = Inr i'"
    and r: "name_to_id_of items (AList.update n' i' acc) = Inr m"
    by (auto simp: sum_bind_def split: sum.splits)
  from Cons.IH [OF r Cons.prems(2)] n i show ?case
    by (auto simp: field_as_str update_conv' split: if_splits)
qed

lemma name_to_id_of_dom:
  "name_to_id_of items acc = Inr m \<Longrightarrow>
     fst ` set m = fst ` set acc \<union> {n. \<exists>item\<in>set items. getitem item ''Name'' = Inr (JStr n)}"
proof (induction items arbitrary: acc)
  case Nil
  then show ?case by simp
next
  case (Cons item items)
  from Cons.prems obtain n i where
    n: "sum_bind (getitem item ''Name'') as_str = Inr n"
    and r: "name_to_id_of items (AList.update n i acc) = Inr m"
    by (auto simp: sum_bind_def split: sum.splits)
  from Cons.IH [OF r] n show ?case
    by (auto simp: field_as_str dom_update)
qed

lemma set_match_names:
  "set (match_names id_to_name name_to_id names) =
     {r \<in> set names. map_of id_to_name r \<noteq> None} \<union>
     {i. \<exists>r\<in>set names. map_of id_to_name r = None \<and> map_of name_to_id r = Some i}"
  by (induction names) (auto split: option.splits)

lemma list_of_set_distinct: "distinct (list_of_set ord xs)"
  by (simp add: list_of_set_def Let_def)

lemma list_of_set_set: "set (list_of_set ord xs) = set xs"
  by (simp add: list_of_set_def Let_def)

section \<open>The policy sent by \<^verbatim>\<open>set_specific_folders\<close> (C3)\<close>

text \<open>
  C3. When the catalog and the account are fetched and the account has a policy object,
  \<^verbatim>\<open>set_specific_folders\<close> sends three requests, the last one the policy. In that
  policy \<open>EnableAllFolders\<close> tells whether the resolved list of ids is empty,
  \<open>EnabledFolders\<close> is that list, which has no duplicates, and the six playback flags are
  true, whatever the fetched policy \<open>current\<close> held.
\<close>

theorem set_specific_folders_policy:
  assumes "respond env (Get ''/Library/MediaFolders'') = Inr (Some j)"
    and "get_default j ''Items'' (JList []) = Inr items"
    and "py_iter items = Inr media_folders"
    and "id_to_name_of media_folders [] = Inr id_to_name"
    and "name_to_id_of media_folders [] = Inr name_to_id"
    and "respond env (Get (''/Users/'' @ user_id)) = Inr (Some account)"
    and "getitem account ''Policy'' = Inr (JObj current)"
  shows "\<exists>policy.
           requests (snd (set_specific_folders env user_id names s)) =
             requests s @ [Get ''/Library/MediaFolders'', Get (''/Users/'' @ user_id),
                           Post (''/Users/'' @ user_id @ ''/Policy'') (JObj policy)] \<and>
           map_of policy ''EnableAllFolders'' =
             Some (JBool (folder_ids_of env id_to_name name_to_id names = [])) \<and>
           map_of policy ''EnabledFolders'' =
             Some (JList (map JStr (folder_ids_of env id_to_name name_to_id names))) \<and>
           distinct (folder_ids_of env id_to_name name_to_id names) \<and>
           map_of policy ''EnableMediaPlayback'' = Some (JBool True) \<and>
           map_of policy ''EnableAudioPlaybackTranscoding'' = Some (JBool True) \<and>
           map_of policy ''EnableVideoPlaybackTranscoding'' = Some (JBool True) \<and>
           map_of policy ''EnablePlaybackRemuxing'' = Some (JBool True) \<and>
           map_of policy ''EnableContentDownloading'' = Some (JBool True) \<and>
           map_of policy ''EnableRemoteAccess'' = Some (JBool True)"
proof -
  let ?ids = "folder_ids_of env id_to_name name_to_id names"
  let ?policy = "dict_update (dict_update current (policy_patch ?ids)) playback_permissions"
  have rq: "requests (snd (set_specific_folders env user_id names s)) =
             requests s @ [Get ''/Library/MediaFolders'', Get (''/Users/'' @ user_id),
                           Post (''/Users/'' @ user_id @ ''/Policy'') (JObj ?policy)]"
    using assms
    by (simp add: set_specific_folders_def exn_bind_def get_def http_def lift_def sum_bind_def
          json_of_def write_log_def get_user_def set_policy_def post_def Let_def
          split: prod.splits sum.splits)
  have m: "map_of ?policy ''EnableAllFolders'' = Some (JBool (?ids = []))"
     "map_of ?policy ''EnabledFolders'' = Some (JList (map JStr ?ids))"
     "map_of ?policy ''EnableMediaPlayback'' = Some (JBool True)"
     "map_of ?policy ''EnableAudioPlaybackTranscoding'' = Some (JBool True)"
     "map_of ?policy ''EnableVideoPlaybackTranscoding'' = Some (JBool True)"
     "map_of ?policy ''EnablePlaybackRemuxing'' = Some (JBool True)"
     "map_of ?policy ''EnableContentDownloading'' = Some (JBool True)"
     "map_of ?policy ''EnableRemoteAccess'' = Some (JBool True)"
    by (simp_all add: dict_update_def policy_patch_def playback_permissions_def update_conv')
  have d: "distinct ?ids"
    by (simp add: folder_ids_of_def list_of_set_distinct)
  from rq m d show ?thesis by blast
qed

theorem set_specific_folders_policy_witness:
  "\<exists>policy.
     requests (snd (set_specific_folders (example_env created_u1 (Inr None) never) ''u1''
                 [''Movies'', ''f2'', ''f2'', ''Music''] (example_state [] JNull))) =
       [Get ''/Library/MediaFolders'', Get ''/Users/u1'', Post ''/Users/u1/Policy'' (JObj policy)] \<and>
     map_of policy ''EnableAllFolders'' = Some (JBool False) \<and>
     map_of policy ''EnabledFolders'' = Some (JList [JStr ''f2'', JStr ''f1'']) \<and>
     map_of policy ''EnableMediaPlayback'' = Some (JBool True)"
proof -
  let ?env = "example_env created_u1 (Inr None) never"
  let ?items = "[JObj [(''Id'', JStr ''f1''), (''Name'', JStr ''Movies'')],
                 JObj [(''Id'', JStr ''f2''), (''Name'', JStr ''Shows'')]]"
  have 1: "respond ?env (Get ''/Library/MediaFolders'') = Inr (Some example_folders)"
    by (simp add: example_env_def example_server_def)
  have 2: "get_default example_folders ''Items'' (JList []) = Inr (JList ?items)"
    by (simp add: example_folders_def)
  have 3: "py_iter (JList ?items) = Inr ?items" by simp
  have 4: "id_to_name_of ?items [] = Inr [(''f1'', ''Movies''), (''f2'', ''Shows'')]"
    by (simp add: sum_bind_def)
  have 5: "name_to_id_of ?items [] = Inr [(''Movies'', ''f1''), (''Shows'', ''f2'')]"
    by (simp add: sum_bind_def)
  have 6: "respond ?env (Get (''/Users/'' @ ''u1'')) = Inr (Some example_account)"
    by (simp add: example_env_def example_server_def)
  have 7: "getitem example_account ''Policy'' =
             Inr (JObj [(''EnableMediaPlayback'', JBool False), (''IsAdministrator'', JBool False),
                        (''EnabledFolders'', JList [JStr ''f9''])])"
    by (simp add: example_account_def)
  have 8: "folder_ids_of ?env [(''f1'', ''Movies''), (''f2'', ''Shows'')]
             [(''Movies'', ''f1''), (''Shows'', ''f2'')] [''Movies'', ''f2'', ''f2'', ''Music''] = [''f2'', ''f1'']"
    by code_simp
  have 9: "requests (example_state [] JNull) = []" by (simp add: example_state_def)
  from set_specific_folders_policy [OF 1 2 3 4 5 6 7, of "[''Movies'', ''f2'', ''f2'', ''Music'']"
      "example_state [] JNull"]
  show ?thesis unfolding 8 9 by auto
qed

section \<open>The resolution of library references (C4)\<close>

text \<open>
  What the loop over \<^verbatim>\<open>names\<close> and the line after it compute, for a catalog
  \<open>media_folders\<close> whose items all carry an identifier and a name: the resolved list has
  no duplicates; each of its members is the identifier of an item, and is either a
  reference itself or the identifier of an item named by a reference that is no
  identifier (the identifier match comes first); a reference that matches nothing adds
  nothing, and the resolution cannot fail. The line after the loop keeps the ids that are
  truthy, so the matched ids reach the result unless they are the empty string.
  \<^verbatim>\<open>folder_name_to_id\<close> follows the same order and has no such filter: the reference
  itself when it is a key of the cache, otherwise a key whose name it is, otherwise
  \<open>None\<close>.
\<close>

lemma folder_ids_resolution:
  assumes "id_to_name_of media_folders [] = Inr id_to_name"
    and "name_to_id_of media_folders [] = Inr name_to_id"
  shows "distinct (folder_ids_of env id_to_name name_to_id names)
       \<and> (\<forall>i\<in>set (folder_ids_of env id_to_name name_to_id names).
            i \<noteq> [] \<and>
            (\<exists>item\<in>set media_folders. getitem item ''Id'' = Inr (JStr i)) \<and>
            (i \<in> set names \<or>
             (\<exists>r\<in>set names.
                (\<forall>item\<in>set media_folders. getitem item ''Id'' \<noteq> Inr (JStr r)) \<and>
                (\<exists>item\<in>set media_folders.
                   getitem item ''Name'' = Inr (JStr r) \<and> getitem item ''Id'' = Inr (JStr i)))))
       \<and> (\<forall>r\<in>set names.
            (\<exists>item\<in>set media_folders. getitem item ''Id'' = Inr (JStr r)) \<and> r \<noteq> [] \<longrightarrow>
            r \<in> set (folder_ids_of env id_to_name name_to_id names))
       \<and> (\<forall>r\<in>set names.
            (\<forall>item\<in>set media_folders. getitem item ''Id'' \<noteq> Inr (JStr r)) \<and>
            (\<exists>item\<in>set media_folders. getitem item ''Name'' = Inr (JStr r)) \<longrightarrow>
            (\<exists>i. (\<exists>item\<in>set media_folders.
                     getitem item ''Name'' = Inr (JStr r) \<and> getitem item ''Id'' = Inr (JStr i)) \<and>
                  (i \<noteq> [] \<longrightarrow> i \<in> set (folder_ids_of env id_to_name name_to_id names))))
       \<and> (map_of cache name \<noteq> None \<longrightarrow> folder_name_to_id name cache = Some name)
       \<and> (\<forall>i. folder_name_to_id name cache = Some i \<longrightarrow>
             map_of cache i \<noteq> None \<and> (i = name \<or> (i, name) \<in> set cache))
       \<and> (folder_name_to_id name cache = None \<longleftrightarrow>
             map_of cache name = None \<and> name \<notin> snd ` set cache)"
proof -
  let ?R = "folder_ids_of env id_to_name name_to_id names"
  have keys: "\<And>i. (map_of id_to_name i \<noteq> None) = (\<exists>item\<in>set media_folders. getitem item ''Id'' = Inr (JStr i))"
    using id_to_name_of_keys [OF assms(1)] by (auto simp: map_of_eq_None_iff)
  have lookup: "\<And>n i. map_of name_to_id n = Some i \<Longrightarrow>
      \<exists>item\<in>set media_folders. getitem item ''Name'' = Inr (JStr n) \<and> getitem item ''Id'' = Inr (JStr i)"
    using name_to_id_of_lookup [OF assms(2)] by auto
  have dom: "\<exists>i. map_of name_to_id n = Some i"
    if "\<exists>item\<in>set media_folders. getitem item ''Name'' = Inr (JStr n)" for n
  proof -
    from that have "n \<in> fst ` set name_to_id"
      using name_to_id_of_dom [OF assms(2)] by simp
    then have "map_of name_to_id n \<noteq> None" by (simp add: map_of_eq_None_iff)
    then show ?thesis by auto
  qed
  have R: "set ?R = {i \<in> set (match_names id_to_name name_to_id names). i \<noteq> []}"
    by (auto simp: folder_ids_of_def list_of_set_set)
  have 1: "distinct ?R" by (simp add: folder_ids_of_def list_of_set_distinct)
  have 2: "\<forall>i\<in>set ?R.
            i \<noteq> [] \<and>
            (\<exists>item\<in>set media_folders. getitem item ''Id'' = Inr (JStr i)) \<and>
            (i \<in> set names \<or>
             (\<exists>r\<in>set names.
                (\<forall>item\<in>set media_folders. getitem item ''Id'' \<noteq> Inr (JStr r)) \<and>
                (\<exists>item\<in>set media_folders.
                   getitem item ''Name'' = Inr (JStr r) \<and> getitem item ''Id'' = Inr (JStr i))))"
  proof
    fix i assume "i \<in> set ?R"
    then have ne: "i \<noteq> []" and "i \<in> set (match_names id_to_name name_to_id names)"
      using R by auto
    then consider (direct) "i \<in> set names" "map_of id_to_name i \<noteq> None"
      | (by_name) r where "r \<in> set names" "map_of id_to_name r = None" "map_of name_to_id r = Some i"
      by (auto simp: set_match_names)
    then show "i \<noteq> [] \<and>
            (\<exists>item\<in>set media_folders. getitem item ''Id'' = Inr (JStr i)) \<and>
            (i \<in> set names \<or>
             (\<exists>r\<in>set names.
                (\<forall>item\<in>set media_folders. getitem item ''Id'' \<noteq> Inr (JStr r)) \<and>
                (\<exists>item\<in>set media_folders.
                   getitem item ''Name'' = Inr (JStr r) \<and> getitem item ''Id'' = Inr (JStr i))))"
    proof cases
      case direct
      with ne keys show ?thesis by auto
    next
      case by_name
      from lookup [OF by_name(3)] obtain item where
        it: "item \<in> set media_folders" "getitem item ''Name'' = Inr (JStr r)"
            "getitem item ''Id'' = Inr (JStr i)"
        by blast
      from by_name(2) keys [of r]
      have "\<forall>item\<in>set media_folders. getitem item ''Id'' \<noteq> Inr (JStr r)" by auto
      with it by_name(1) ne show ?thesis by blast
    qed
  qed
  have 3: "\<forall>r\<in>set names.
            (\<exists>item\<in>set media_folders. getitem item ''Id'' = Inr (JStr r)) \<and> r \<noteq> [] \<longrightarrow> r \<in> set ?R"
    using keys by (auto simp: R set_match_names)
  have 4: "\<forall>r\<in>set names.
            (\<forall>item\<in>set media_folders. getitem item ''Id'' \<noteq> Inr (JStr r)) \<and>
            (\<exists>item\<in>set media_folders. getitem item ''Name'' = Inr (JStr r)) \<longrightarrow>
            (\<exists>i. (\<exists>item\<in>set media_folders.
                     getitem item ''Name'' = Inr (JStr r) \<and> getitem item ''Id'' = Inr (JStr i)) \<and>
                  (i \<noteq> [] \<longrightarrow> i \<in> set ?R))"
  proof (intro ballI impI)
    fix r assume r: "r \<in> set names"
      and h: "(\<forall>item\<in>set media_folders. getitem item ''Id'' \<noteq> Inr (JStr r)) \<and>
              (\<exists>item\<in>set media_folders. getitem item ''Name'' = Inr (JStr r))"
    from h dom obtain i where i: "map_of name_to_id r = Some i" by blast
    from h keys [of r] have n: "map_of id_to_name r = None" by auto
    from r n i have "i \<in> set (match_names id_to_name name_to_id names)"
      by (auto simp: set_match_names)
    with lookup [OF i] R
    show "\<exists>i. (\<exists>item\<in>set media_folders.
                     getitem item ''Name'' = Inr (JStr r) \<and> getitem item ''Id'' = Inr (JStr i)) \<and>
                  (i \<noteq> [] \<longrightarrow> i \<in> set ?R)"
      by auto
  qed
  have 5: "map_of cache name \<noteq> None \<longrightarrow> folder_name_to_id name cache = Some name"
    by (simp add: folder_name_to_id_def)
  have 6: "\<forall>i. folder_name_to_id name cache = Some i \<longrightarrow>
             map_of cache i \<noteq> None \<and> (i = name \<or> (i, name) \<in> set cache)"
    by (auto simp: folder_name_to_id_def find_Some_iff map_of_eq_None_iff split: if_splits)
       (metis fst_conv nth_mem prod.collapse image_eqI)+
  have 7: "folder_name_to_id name cache = None \<longleftrightarrow>
             map_of cache name = None \<and> name \<notin> snd ` set cache"
    by (force simp: folder_name_to_id_def find_None_iff)
  from 1 2 3 4 5 6 7 show ?thesis by blast
qed

lemma folder_ids_resolution_example:
  "set (folder_ids_of (example_env created_u1 (Inr None) never)
          [(''f1'', ''Movies''), (''f2'', ''Shows'')] [(''Movies'', ''f1''), (''Shows'', ''f2'')]
          [''Movies'', ''f2'', ''f2'', ''Music'']) = {''f1'', ''f2''}
   \<and> ''f2'' \<in> set (folder_ids_of (example_env created_u1 (Inr None) never)
          [(''f1'', ''Movies''), (''f2'', ''Shows'')] [(''Movies'', ''f1''), (''Shows'', ''f2'')]
          [''Movies'', ''f2'', ''f2'', ''Music''])
   \<and> distinct (folder_ids_of (example_env created_u1 (Inr None) never)
          [(''f1'', ''Movies''), (''f2'', ''Shows'')] [(''Movies'', ''f1''), (''Shows'', ''f2'')]
          [''Movies'', ''f2'', ''f2'', ''Music''])"
proof -
  let ?items = "[JObj [(''Id'', JStr ''f1''), (''Name'', JStr ''Movies'')],
                 JObj [(''Id'', JStr ''f2''), (''Name'', JStr ''Shows'')]]"
  let ?names = "[''Movies'', ''f2'', ''f2'', ''Music'']"
  let ?R = "folder_ids_of (example_env created_u1 (Inr None) never)
          [(''f1'', ''Movies''), (''f2'', ''Shows'')] [(''Movies'', ''f1''), (''Shows'', ''f2'')] ?names"
  have 4: "id_to_name_of ?items [] = Inr [(''f1'', ''Movies''), (''f2'', ''Shows'')]"
    by (simp add: sum_bind_def)
  have 5: "name_to_id_of ?items [] = Inr [(''Movies'', ''f1''), (''Shows'', ''f2'')]"
    by (simp add: sum_bind_def)
  have s: "set ?R = {''f1'', ''f2''}" by code_simp
  note t = folder_ids_resolution [OF 4 5, of "example_env created_u1 (Inr None) never" ?names
      "[]" "[]"]
  from t have d: "distinct ?R" by blast
  from t have "\<forall>r\<in>set ?names.
            (\<exists>item\<in>set ?items. getitem item ''Id'' = Inr (JStr r)) \<and> r \<noteq> [] \<longrightarrow> r \<in> set ?R"
    by blast
  then have "''f2'' \<in> set ?R" by simp
  with s d show ?thesis by blast
qed

text \<open>On a catalog in which no library has the empty identifier, the resolution is what C4 says.\<close>

lemma folder_ids_without_empty_ids:
  assumes "id_to_name_of media_folders [] = Inr id_to_name"
    and "name_to_id_of media_folders [] = Inr name_to_id"
    and "\<forall>item\<in>set media_folders. getitem item ''Id'' \<noteq> Inr (JStr [])"
  shows "distinct (folder_ids_of env id_to_name name_to_id names)
       \<and> (\<forall>i\<in>set (folder_ids_of env id_to_name name_to_id names).
            \<exists>item\<in>set media_folders. getitem item ''Id'' = Inr (JStr i))
       \<and> (\<forall>r\<in>set names.
            (\<exists>item\<in>set media_folders. getitem item ''Id'' = Inr (JStr r)) \<longrightarrow>
            r \<in> set (folder_ids_of env id_to_name name_to_id names))
       \<and> (\<forall>r\<in>set names.
            (\<forall>item\<in>set media_folders. getitem item ''Id'' \<noteq> Inr (JStr r)) \<and>
            (\<exists>item\<in>set media_folders. getitem item ''Name'' = Inr (JStr r)) \<longrightarrow>
            (\<exists>i\<in>set (folder_ids_of env id_to_name name_to_id names).
               \<exists>item\<in>set media_folders.
                 getitem item ''Name'' = Inr (JStr r) \<and> getitem item ''Id'' = Inr (JStr i)))"
proof -
  let ?R = "folder_ids_of env id_to_name name_to_id names"
  note t = folder_ids_resolution [OF assms(1,2), of env names "[]" "[]"]
  from t have 1: "distinct ?R" by blast
  from t have 2: "\<forall>i\<in>set ?R. \<exists>item\<in>set media_folders. getitem item ''Id'' = Inr (JStr i)"
    by blast
  from t have "\<forall>r\<in>set names.
            (\<exists>item\<in>set media_folders. getitem item ''Id'' = Inr (JStr r)) \<and> r \<noteq> [] \<longrightarrow> r \<in> set ?R"
    by blast
  with assms(3) have 3: "\<forall>r\<in>set names.
            (\<exists>item\<in>set media_folders. getitem item ''Id'' = Inr (JStr r)) \<longrightarrow> r \<in> set ?R"
    by blast
  from t have 4: "\<forall>r\<in>set names.
            (\<forall>item\<in>set media_folders. getitem item ''Id'' \<noteq> Inr (JStr r)) \<and>
            (\<exists>item\<in>set media_folders. getitem item ''Name'' = Inr (JStr r)) \<longrightarrow>
            (\<exists>i. (\<exists>item\<in>set media_folders.
                     getitem item ''Name'' = Inr (JStr r) \<and> getitem item ''Id'' = Inr (JStr i)) \<and>
                  (i \<noteq> [] \<longrightarrow> i \<in> set ?R))"
    by blast
  have 5: "\<forall>r\<in>set names.
            (\<forall>item\<in>set media_folders. getitem item ''Id'' \<noteq> Inr (JStr r)) \<and>
            (\<exists>item\<in>set media_folders. getitem item ''Name'' = Inr (JStr r)) \<longrightarrow>
            (\<exists>i\<in>set ?R. \<exists>item\<in>set media_folders.
                 getitem item ''Name'' = Inr (JStr r) \<and> getitem item ''Id'' = Inr (JStr i))"
  proof (intro ballI impI)
    fix r assume "r \<in> set names"
      and "(\<forall>item\<in>set media_folders. getitem item ''Id'' \<noteq> Inr (JStr r)) \<and>
           (\<exists>item\<in>set media_folders. getitem item ''Name'' = Inr (JStr r))"
    with 4 obtain i item where i: "item \<in> set media_folders"
        "getitem item ''Name'' = Inr (JStr r)" "getitem item ''Id'' = Inr (JStr i)"
        "i \<noteq> [] \<longrightarrow> i \<in> set ?R"
      by blast
    from i(1,3) assms(3) have "i \<noteq> []" by auto
    with i show "\<exists>i\<in>set ?R. \<exists>item\<in>set media_folders.
                 getitem item ''Name'' = Inr (JStr r) \<and> getitem item ''Id'' = Inr (JStr i)"
      by blast
  qed
  from 1 2 3 5 show ?thesis by blast
qed

text \<open>
  C4 fails on a catalog with a library whose identifier is the empty string. The line
  after the loop, \<^verbatim>\<open>list(set([fid for fid in folder_ids if fid]))\<close>, is there to
  \<^verbatim>\<open>Remove duplicates and None values\<close>, and its truthiness test drops the empty
  string as well. With the catalog \<open>{"": "Movies"}\<close> and the reference \<open>Movies\<close>, the
  loop finds the name and appends the identifier, the filter removes it, and the result
  is empty although the reference matches a name of the catalog: the function then logs
  that no library matched and posts a policy with \<open>EnableAllFolders\<close> true.
  \<^verbatim>\<open>folder_name_to_id\<close> resolves the same reference to the identifier.
\<close>

theorem folder_ids_drops_empty_identifier:
  "id_to_name_of [JObj [(''Id'', JStr []), (''Name'', JStr ''Movies'')]] [] = Inr [([], ''Movies'')]
   \<and> name_to_id_of [JObj [(''Id'', JStr []), (''Name'', JStr ''Movies'')]] [] = Inr [(''Movies'', [])]
   \<and> match_names [([], ''Movies'')] [(''Movies'', [])] [''Movies''] = [[]]
   \<and> folder_ids_of empty_id_env [([], ''Movies'')] [(''Movies'', [])] [''Movies''] = []
   \<and> folder_name_to_id ''Movies'' [([], ''Movies'')] = Some []
   \<and> set_specific_folders empty_id_env ''u1'' [''Movies''] (example_state [] JNull) =
       (Inr (),
        (example_state [] JNull)
          \<lparr>requests :=
             [Get ''/Library/MediaFolders'', Get ''/Users/u1'',
              Post ''/Users/u1/Policy''
                (JObj [(''EnableMediaPlayback'', JBool True),
                       (''IsAdministrator'', JBool False),
                       (''EnabledFolders'', JList []),
                       (''EnableAllFolders'', JBool True),
                       (''EnableAudioPlaybackTranscoding'', JBool True),
                       (''EnableVideoPlaybackTranscoding'', JBool True),
                       (''EnablePlaybackRemuxing'', JBool True),
                       (''EnableContentDownloading'', JBool True),
                       (''EnableRemoteAccess'', JBool True)])],
           log := [NoMatchingLibraries]\<rparr>)"
  by code_simp

section \<open>The two loops of \<^verbatim>\<open>list_users\<close>\<close>

lemma set_alist_update: "set (AList.update k v al) \<subseteq> insert (k, v) (set al)"
  by (induction al) auto

text \<open>The dictionary of the remote accounts: its keys are their identifiers, and each value carries its key.\<close>

lemma emby_users_of_inv:
  "emby_users_of us acc = Inr m \<Longrightarrow>
     (\<forall>kv\<in>set acc. getitem (snd kv) ''Id'' = Inr (JStr (fst kv)) \<and> snd kv \<in> A) \<Longrightarrow>
     set us \<subseteq> A \<Longrightarrow>
     fst ` set m = fst ` set acc \<union> {i. \<exists>a\<in>set us. getitem a ''Id'' = Inr (JStr i)} \<and>
     (\<forall>kv\<in>set m. getitem (snd kv) ''Id'' = Inr (JStr (fst kv)) \<and> snd kv \<in> A)"
proof (induction us arbitrary: acc)
  case Nil
  then show ?case by simp
next
  case (Cons u us)
  from Cons.prems(1) obtain i where
    i: "sum_bind (getitem u ''Id'') as_str = Inr i"
    and r: "emby_users_of us (AList.update i u acc) = Inr m"
    by (auto simp: sum_bind_def split: sum.splits)
  from i have iu: "getitem u ''Id'' = Inr (JStr i)" by (simp add: field_as_str)
  have "\<forall>kv\<in>set (AList.update i u acc). getitem (snd kv) ''Id'' = Inr (JStr (fst kv)) \<and> snd kv \<in> A"
    using Cons.prems(2,3) iu set_alist_update [of i u acc] by auto
  moreover have "set us \<subseteq> A" using Cons.prems(3) by simp
  ultimately show ?case
    using Cons.IH [OF r] iu by (auto simp: dom_update)
qed

text \<open>
  The first loop appends rows to the session's user table and changes nothing else:
  one placeholder for each remote identifier that no row had as its token.
\<close>

lemma add_missing_Inr:
  "add_missing vs s = (Inr u, s1) \<Longrightarrow>
     \<exists>new. s1 = s\<lparr>session := (session s)\<lparr>users_tbl := users_tbl (session s) @ new\<rparr>\<rparr> \<and>
           distinct (map u_token new) \<and>
           set (map u_token new) =
             {i. \<exists>v\<in>set vs. getitem v ''Id'' = Inr (JStr i)} - u_token ` set (users_tbl (session s)) \<and>
           (\<forall>n\<in>set new. placeholder vs n)"
proof (induction vs arbitrary: s)
  case Nil
  then show ?case by simp
next
  case (Cons v vs)
  from Cons.prems obtain tok where tok: "sum_bind (getitem v ''Id'') as_str = Inr tok"
    by (auto split: sum.splits)
  then have tv: "getitem v ''Id'' = Inr (JStr tok)" by (simp add: field_as_str)
  show ?case
  proof (cases "find (\<lambda>u. u_token u = tok) (users_tbl (session s))")
    case (Some existing)
    then have ex: "tok \<in> u_token ` set (users_tbl (session s))"
      by (auto simp: find_Some_iff)
    from Cons.prems tok Some have "add_missing vs s = (Inr u, s1)" by simp
    from Cons.IH [OF this] obtain new where
      n: "s1 = s\<lparr>session := (session s)\<lparr>users_tbl := users_tbl (session s) @ new\<rparr>\<rparr>"
         "distinct (map u_token new)"
         "set (map u_token new) =
             {i. \<exists>v\<in>set vs. getitem v ''Id'' = Inr (JStr i)} - u_token ` set (users_tbl (session s))"
         "\<forall>n\<in>set new. placeholder vs n"
      by blast
    have "set (map u_token new) =
             {i. \<exists>v\<in>set (v # vs). getitem v ''Id'' = Inr (JStr i)} - u_token ` set (users_tbl (session s))"
      using n(3) ex tv by auto
    moreover have "\<forall>n\<in>set new. placeholder (v # vs) n"
      using n(4) by (auto simp: placeholder_def)
    ultimately show ?thesis using n(1,2) by blast
  next
    case None
    then have nex: "tok \<notin> u_token ` set (users_tbl (session s))"
      by (auto simp: find_None_iff)
    from Cons.prems tok None obtain name where
      name: "sum_bind (getitem v ''Name'') as_str = Inr name"
      by (auto split: sum.splits)
    then have nv: "getitem v ''Name'' = Inr (JStr name)" by (simp add: field_as_str)
    let ?p = "\<lparr>u_username = name, u_email = ''empty'', u_password = ''empty'',
               u_token = tok, u_code = ''empty'', u_expires = None\<rparr>"
    let ?s = "s\<lparr>session := (session s)\<lparr>users_tbl := users_tbl (session s) @ [?p]\<rparr>\<rparr>"
    from Cons.prems tok None name have "add_missing vs ?s = (Inr u, s1)"
      by (simp add: session_add_def)
    from Cons.IH [OF this] obtain new where
      n: "s1 = ?s\<lparr>session := (session ?s)\<lparr>users_tbl := users_tbl (session ?s) @ new\<rparr>\<rparr>"
         "distinct (map u_token new)"
         "set (map u_token new) =
             {i. \<exists>v\<in>set vs. getitem v ''Id'' = Inr (JStr i)} - u_token ` set (users_tbl (session ?s))"
         "\<forall>n\<in>set new. placeholder vs n"
      by blast
    have 1: "s1 = s\<lparr>session := (session s)\<lparr>users_tbl := users_tbl (session s) @ (?p # new)\<rparr>\<rparr>"
      using n(1) by simp
    have 2: "distinct (map u_token (?p # new))"
      using n(2,3) by auto
    have 3: "set (map u_token (?p # new)) =
             {i. \<exists>v\<in>set (v # vs). getitem v ''Id'' = Inr (JStr i)} - u_token ` set (users_tbl (session s))"
      using n(3) nex tv by auto
    have 4: "\<forall>n\<in>set (?p # new). placeholder (v # vs) n"
      using n(4) tv nv by (auto simp: placeholder_def)
    from 1 2 3 4 show ?thesis by blast
  qed
qed

lemma placeholder_mono: "placeholder vs n \<Longrightarrow> set vs \<subseteq> set accounts \<Longrightarrow> placeholder accounts n"
  by (auto simp: placeholder_def)

section \<open>Directory sync (C6)\<close>

text \<open>
  C6. When \<^verbatim>\<open>list_users\<close> completes on the fetched list \<open>accounts\<close>, the rows it
  returns are the user table of the database, with nothing pending in the session. The
  tokens of these rows are exactly the identifiers of the remote accounts. The rows are
  the earlier rows whose token is a remote identifier, unchanged and in their order,
  followed by one placeholder row for each remote identifier that no earlier row had:
  every other earlier row is deleted. The scenario of the claim is run after the theorem:
  with the remote accounts \<open>A\<close> and \<open>B\<close> and the local rows \<open>A\<close> and \<open>C\<close>, the result is
  the row \<open>A\<close> and a placeholder for \<open>B\<close>.
\<close>

theorem list_users_syncs_with_remote:
  assumes "list_users env s = (Inr result, s')"
    and "respond env (Get ''/Users'') = Inr (Some j)"
    and "py_iter j = Inr accounts"
  shows "result = users_tbl (committed s')
       \<and> session s' = committed s'
       \<and> u_token ` set result = {i. \<exists>a\<in>set accounts. getitem a ''Id'' = Inr (JStr i)}
       \<and> (\<exists>new. result =
                   filter (\<lambda>u. \<exists>a\<in>set accounts. getitem a ''Id'' = Inr (JStr (u_token u)))
                     (users_tbl (session s)) @ new \<and>
                 distinct (map u_token new) \<and>
                 (\<forall>n\<in>set new. placeholder accounts n \<and>
                               u_token n \<notin> u_token ` set (users_tbl (session s))))"
proof -
  let ?s0 = "s\<lparr>requests := requests s @ [Get ''/Users'']\<rparr>"
  let ?ids = "{i. \<exists>a\<in>set accounts. getitem a ''Id'' = Inr (JStr i)}"
  from assms obtain emby_users where
    eu: "emby_users_of accounts [] = Inr emby_users"
    and rest: "exn_bind (add_missing (map snd emby_users)) (\<lambda>_.
               exn_bind (commit env) (\<lambda>_.
               exn_bind (delete_absent emby_users) (\<lambda>_.
               exn_bind (commit env) (\<lambda>_ s.
               (Inr (users_tbl (session s)), s))))) ?s0 = (Inr result, s')"
    by (auto simp: list_users_def exn_bind_def get_def http_def lift_def sum_bind_def json_of_def
             split: sum.splits prod.splits)
  from emby_users_of_inv [OF eu, of "set accounts"]
  have keys: "fst ` set emby_users = ?ids"
    and vals: "\<forall>kv\<in>set emby_users. getitem (snd kv) ''Id'' = Inr (JStr (fst kv)) \<and> snd kv \<in> set accounts"
    by auto
  have vids: "{i. \<exists>v\<in>set (map snd emby_users). getitem v ''Id'' = Inr (JStr i)} = ?ids"
  proof -
    have "{i. \<exists>v\<in>set (map snd emby_users). getitem v ''Id'' = Inr (JStr i)} = fst ` set emby_users"
      using vals by force
    with keys show ?thesis by simp
  qed
  have vsub: "set (map snd emby_users) \<subseteq> set accounts" using vals by auto
  have mem: "(map_of emby_users t \<noteq> None) = (t \<in> ?ids)" for t
    using keys by (simp add: map_of_eq_None_iff)
  from rest obtain s1 where
    am: "add_missing (map snd emby_users) ?s0 = (Inr (), s1)"
    and rest2: "exn_bind (commit env) (\<lambda>_.
               exn_bind (delete_absent emby_users) (\<lambda>_.
               exn_bind (commit env) (\<lambda>_ s.
               (Inr (users_tbl (session s)), s)))) s1 = (Inr result, s')"
    by (auto simp: exn_bind_Inr)
  from add_missing_Inr [OF am] vids obtain new where
    s1: "s1 = ?s0\<lparr>session := (session ?s0)\<lparr>users_tbl := users_tbl (session ?s0) @ new\<rparr>\<rparr>"
    and dn: "distinct (map u_token new)"
    and tn: "set (map u_token new) = ?ids - u_token ` set (users_tbl (session s))"
    and pn: "\<forall>n\<in>set new. placeholder (map snd emby_users) n"
    by auto
  let ?kept = "filter (\<lambda>dbu. map_of emby_users (u_token dbu) \<noteq> None) (users_tbl (session s1))"
  from rest2 have res: "result = ?kept" and c: "users_tbl (committed s') = ?kept"
    and sc: "session s' = committed s'"
    by (auto simp: exn_bind_def commit_def delete_absent_def split: if_splits)
  have newin: "\<forall>n\<in>set new. u_token n \<in> ?ids" using tn by auto
  have pred: "(\<lambda>dbu. map_of emby_users (u_token dbu) \<noteq> None) = (\<lambda>u. u_token u \<in> ?ids)"
    by (rule ext) (rule mem)
  have "filter (\<lambda>u. u_token u \<in> ?ids) new = new"
    using newin by (simp add: filter_id_conv)
  then have kept: "?kept = filter (\<lambda>u. u_token u \<in> ?ids) (users_tbl (session s)) @ new"
    unfolding pred by (simp add: s1)
  have rk: "result = filter (\<lambda>u. u_token u \<in> ?ids) (users_tbl (session s)) @ new"
    unfolding res by (rule kept)
  have 1: "result = users_tbl (committed s')" using res c by simp
  have 3: "u_token ` set result = ?ids"
  proof
    show "u_token ` set result \<subseteq> ?ids" using newin unfolding rk by auto
    show "?ids \<subseteq> u_token ` set result"
    proof
      fix i assume i: "i \<in> ?ids"
      show "i \<in> u_token ` set result"
      proof (cases "i \<in> u_token ` set (users_tbl (session s))")
        case True
        with i show ?thesis unfolding rk by auto
      next
        case False
        with i tn have "i \<in> set (map u_token new)" by simp
        then show ?thesis unfolding rk by auto
      qed
    qed
  qed
  have 4: "\<forall>n\<in>set new. placeholder accounts n \<and> u_token n \<notin> u_token ` set (users_tbl (session s))"
    using pn tn placeholder_mono [OF _ vsub] by auto
  have "result = filter (\<lambda>u. \<exists>a\<in>set accounts. getitem a ''Id'' = Inr (JStr (u_token u)))
                   (users_tbl (session s)) @ new"
    using rk by simp
  with dn 4 have "\<exists>new. result =
                   filter (\<lambda>u. \<exists>a\<in>set accounts. getitem a ''Id'' = Inr (JStr (u_token u)))
                     (users_tbl (session s)) @ new \<and>
                 distinct (map u_token new) \<and>
                 (\<forall>n\<in>set new. placeholder accounts n \<and>
                               u_token n \<notin> u_token ` set (users_tbl (session s)))"
    by blast
  with 1 sc 3 show ?thesis by blast
qed

theorem list_users_syncs_with_remote_witness:
  "fst (list_users (example_env created_u1 (Inr None) never) sync_state) =
     Inr [local_A,
          \<lparr>u_username = ''bob'', u_email = ''empty'', u_password = ''empty'', u_token = ''B'',
           u_code = ''empty'', u_expires = None\<rparr>]
   \<and> u_token ` set (users_tbl (committed (snd (list_users (example_env created_u1 (Inr None) never)
        sync_state)))) = {''A'', ''B''}"
proof -
  let ?env = "example_env created_u1 (Inr None) never"
  let ?result = "[local_A,
          \<lparr>u_username = ''bob'', u_email = ''empty'', u_password = ''empty'', u_token = ''B'',
           u_code = ''empty'', u_expires = None\<rparr>]"
  let ?accounts = "[JObj [(''Id'', JStr ''A''), (''Name'', JStr ''alice'')],
                    JObj [(''Id'', JStr ''B''), (''Name'', JStr ''bob'')]]"
  have f: "fst (list_users ?env sync_state) = Inr ?result" by code_simp
  then have l: "list_users ?env sync_state = (Inr ?result, snd (list_users ?env sync_state))"
    by (simp add: prod_eq_iff)
  have r: "respond ?env (Get ''/Users'') = Inr (Some example_accounts)"
    by (simp add: example_env_def example_server_def)
  have p: "py_iter example_accounts = Inr ?accounts"
    by (simp add: example_accounts_def)
  from list_users_syncs_with_remote [OF l r p]
  have "?result = users_tbl (committed (snd (list_users ?env sync_state)))" by blast
  then have "u_token ` set (users_tbl (committed (snd (list_users ?env sync_state)))) =
               u_token ` set ?result"
    by simp
  also have "\<dots> = {''A'', ''B''}" by (simp add: local_A_def new_user_of_def)
  finally show ?thesis using f by simp
qed

section \<open>The coercion of \<^verbatim>\<open>update_user\<close> (C8)\<close>

text \<open>
  A form field that is a key of one block only is coerced to the type of the current
  value and written to that block; a field that is a key of neither block changes
  nothing. This is what C8 says.
\<close>

lemma update_section_absent:
  "getitem current section = Inr (JObj sec) \<Longrightarrow> map_of sec key = None \<Longrightarrow>
     update_section section key (current, val) = Inr (current, val)"
  by (simp add: update_section_def sum_bind_def)

lemma update_section_present:
  "getitem current section = Inr (JObj sec) \<Longrightarrow> map_of sec key = Some target \<Longrightarrow>
     coerce target val = Inr val' \<Longrightarrow>
     update_section section key (current, val) = Inr (setitem2 current section key val', val')"
  by (simp add: update_section_def sum_bind_def)

lemma getitem_setitem2:
  assumes "getitem current section = Inr (JObj sec)"
  shows "getitem (setitem2 current section key val) section' =
           (if section' = section then Inr (JObj (AList.update key val sec))
            else getitem current section')"
proof (cases current)
  case (JObj kvs)
  with assms have "map_of kvs section = Some (JObj sec)"
    by (auto split: option.splits)
  with JObj show ?thesis by (simp add: update_conv')
qed (use assms in simp_all)

lemma apply_form_one_block:
  assumes "getitem current ''Policy'' = Inr (JObj policy)"
    and "getitem current ''Configuration'' = Inr (JObj configuration)"
  shows "map_of policy key = None \<Longrightarrow> map_of configuration key = None \<Longrightarrow>
           apply_form [(key, val)] current = Inr current"
    and "map_of policy key = Some target \<Longrightarrow> map_of configuration key = None \<Longrightarrow>
           coerce target val = Inr val' \<Longrightarrow>
           apply_form [(key, val)] current = Inr (setitem2 current ''Policy'' key val')"
    and "map_of policy key = None \<Longrightarrow> map_of configuration key = Some target \<Longrightarrow>
           coerce target val = Inr val' \<Longrightarrow>
           apply_form [(key, val)] current = Inr (setitem2 current ''Configuration'' key val')"
    and "coerce (JBool b) (JStr ''True'') = Inr (JBool True)"
    and "coerce (JList xs) (JStr []) = Inr (JList [])"
proof -
  show "apply_form [(key, val)] current = Inr current"
    if "map_of policy key = None" "map_of configuration key = None"
    using that assms by (simp add: update_section_absent sum_bind_def)
  show "apply_form [(key, val)] current = Inr (setitem2 current ''Policy'' key val')"
    if "map_of policy key = Some target" "map_of configuration key = None"
       "coerce target val = Inr val'"
  proof -
    have 1: "update_section ''Policy'' key (current, val) =
               Inr (setitem2 current ''Policy'' key val', val')"
      using that assms by (simp add: update_section_present)
    have "getitem (setitem2 current ''Policy'' key val') ''Configuration'' = Inr (JObj configuration)"
      using assms by (simp add: getitem_setitem2)
    then have 2: "update_section ''Configuration'' key (setitem2 current ''Policy'' key val', val') =
               Inr (setitem2 current ''Policy'' key val', val')"
      using that by (simp add: update_section_absent)
    from 1 2 show ?thesis by (simp add: sum_bind_def)
  qed
  show "apply_form [(key, val)] current = Inr (setitem2 current ''Configuration'' key val')"
    if "map_of policy key = None" "map_of configuration key = Some target"
       "coerce target val = Inr val'"
    using that assms by (simp add: update_section_absent update_section_present sum_bind_def)
  show "coerce (JBool b) (JStr ''True'') = Inr (JBool True)" by simp
  show "coerce (JList xs) (JStr []) = Inr (JList [])" by simp
qed

text \<open>
  C8 fails for a field that is a key of both blocks. The inner loop assigns the coerced
  value to \<^verbatim>\<open>val\<close> itself, so the \<open>Configuration\<close> block is given the value already
  coerced for the \<open>Policy\<close> block. For a boolean field and the form value \<open>"True"\<close>,
  \<open>Policy\<close> receives \<open>True\<close> and \<open>Configuration\<close> receives \<open>True == "True"\<close>, which is
  \<open>False\<close>. For a list field and the form value \<open>""\<close>, \<open>Policy\<close> receives the empty list
  and the second pass calls \<^verbatim>\<open>split\<close> on that list, which raises
  \<^verbatim>\<open>AttributeError\<close> before anything is sent to the server.
\<close>

theorem update_user_field_in_both_blocks:
  "fst (update_user (example_env created_u1 (Inr None) never) ''u2'' [(''IsAdmin'', JStr ''True'')]
          (example_state [] JNull)) =
     Inr (JObj [(''Name'', JStr ''dave''),
                (''Policy'', JObj [(''IsAdmin'', JBool True), (''Tags'', JList [JStr ''a'', JStr ''b''])]),
                (''Configuration'', JObj [(''IsAdmin'', JBool False),
                                          (''Tags'', JList [JStr ''a'', JStr ''b''])])])
   \<and> update_user (example_env created_u1 (Inr None) never) ''u2'' [(''Tags'', JStr [])]
        (example_state [] JNull) =
     (Inl AttributeError, (example_state [] JNull)\<lparr>requests := [Get ''/Users/u2'']\<rparr>)"
  by code_simp

end
